theory Spec2Isabelle
  imports Main "HOL-Library.Word" "HOL-Library.Sublist"
begin

section \<open>The launcher of open-builder: \<^verbatim>\<open>src/main.cpp\<close>\<close>

subsection \<open>Characters and decimal numerals of the C and C++ libraries\<close>

text \<open>
  \<^verbatim>\<open>isspace\<close> and \<^verbatim>\<open>isdigit\<close> in the "C" locale: the six white-space characters
  (space, \<^verbatim>\<open>\t \n \v \f \r\<close>) and the ten decimal digits.
\<close>

definition isspace :: "char \<Rightarrow> bool" where
  "isspace c = (c = CHR '' '' \<or> c = CHR 0x09 \<or> c = CHR 0x0A \<or> c = CHR 0x0B
                \<or> c = CHR 0x0C \<or> c = CHR 0x0D)"

definition isdigit :: "char \<Rightarrow> bool" where
  "isdigit c = (c \<in> set ''0123456789'')"

definition digit_value :: "char \<Rightarrow> int" where
  "digit_value c = int (of_char c) - 48"

definition decimal :: "string \<Rightarrow> int" where
  "decimal ds = foldl (\<lambda>acc c. 10 * acc + digit_value c) 0 ds"

definition INT_MIN :: int where "INT_MIN = - 2147483648"
definition INT_MAX :: int where "INT_MAX = 2147483647"

text \<open>
  An optional sign in front of a digit sequence, as \<^verbatim>\<open>strtol\<close> and \<^verbatim>\<open>num_get\<close> read it:
  the result says whether the sign was a minus, and what follows the sign.
\<close>

definition read_sign :: "string \<Rightarrow> bool \<times> string" where
  "read_sign s =
     (case s of
        [] \<Rightarrow> (False, [])
      | c # cs \<Rightarrow> if c = CHR ''-'' then (True, cs)
                 else if c = CHR ''+'' then (False, cs)
                 else (False, s))"

text \<open>
  \<^verbatim>\<open>std::stoi(str)\<close> (base 10): skips leading white space, reads an optional sign and the
  longest run of digits, and ignores whatever follows. It throws
  \<^verbatim>\<open>std::invalid_argument\<close> when there is no digit to convert and
  \<^verbatim>\<open>std::out_of_range\<close> when the value does not fit an \<^verbatim>\<open>int\<close>.
\<close>

datatype stoi_result = Converted int | invalid_argument | out_of_range

definition stoi :: "string \<Rightarrow> stoi_result" where
  "stoi str =
     (let (neg, s) = read_sign (dropWhile isspace str);
          ds = takeWhile isdigit s
      in if ds = [] then invalid_argument
         else let v = (if neg then - decimal ds else decimal ds)
              in if v < INT_MIN \<or> INT_MAX < v then out_of_range else Converted v)"

subsection \<open>Configuration\<close>

text \<open>
  \<^verbatim>\<open>ServerConfig\<close> and \<^verbatim>\<open>ClientConfig\<close> are declared in \<^verbatim>\<open>server/server_config.h\<close> and
  \<^verbatim>\<open>client/client_config.h\<close>, which are not among the available sources. The records
  below hold the fields that \<^verbatim>\<open>main.cpp\<close> reads and writes: the two flags as \<^verbatim>\<open>bool\<close>,
  the sizes and limits as \<^verbatim>\<open>int\<close>, the skin name as \<^verbatim>\<open>std::string\<close>. Their built-in
  defaults are not visible either, so every function takes the configuration it starts
  from as an argument.
\<close>

record ServerConfig =
  maxConnections :: int
  worldHeight :: int
  worldSize :: int

record ClientConfig =
  fullScreen :: bool
  windowWidth :: int
  windowHeight :: int
  isFpsCapped :: bool
  fpsLimit :: int
  fov :: int
  skinName :: string

datatype LaunchType = Server | Client | Both | TwoPlayer

record Config =
  launchType :: LaunchType
  serverOptions :: ServerConfig
  clientOptions :: ClientConfig

text \<open>
  \<^verbatim>\<open>Config config;\<close> in \<^verbatim>\<open>main\<close>: the launch type starts as \<^verbatim>\<open>LaunchType::TwoPlayer\<close>,
  the options start at the defaults of their structs.
\<close>

definition default_Config :: "ServerConfig \<Rightarrow> ClientConfig \<Rightarrow> Config" where
  "default_Config sdef cdef =
     \<lparr>launchType = TwoPlayer, serverOptions = sdef, clientOptions = cdef\<rparr>"

subsection \<open>What the launcher does, as a trace\<close>

text \<open>
  The status an engine returns. \<^verbatim>\<open>EngineStatus\<close> is declared outside the available
  sources; the constructors are the enumerators \<^verbatim>\<open>launchClient\<close> switches on, and
  \<open>Unrecognised\<close> stands for any other value, which falls out of the switch.
\<close>

datatype EngineStatus =
  Exit | Ok | ExitServerDisconnect | ExitServerTimeout | GLInitError | CouldNotConnect
  | Unrecognised

text \<open>
  Why \<^verbatim>\<open>parseArgs\<close> fell back to four connections: \<^verbatim>\<open>std::stoi\<close> found nothing to
  convert, or the count was below two, or above sixteen (the text of \<^verbatim>\<open>e.what()\<close>).
\<close>

datatype Reason = NoConversion | AtLeastMinimum | MaximumOrBelow

text \<open>What a thread started by the launcher runs, with its arguments (times in milliseconds).\<close>

datatype ThreadBody =
  ServerThread ServerConfig int
  | ClientThread ClientConfig

datatype Event =
  EnetInitialize
  | EnetDeinitialize
  | UnableToSetMaxConnections Reason
  | Log string string
  | EngineExitedSuccessfully string
  | EngineExitedWithError string
  | RunServerEngine ServerConfig int
  | RunClientEngine ClientConfig
  | ThreadStart ThreadBody
  | SleepFor int
  | ThreadJoin ThreadBody

definition EXIT_SUCCESS :: int where "EXIT_SUCCESS = 0"
definition EXIT_FAILURE :: int where "EXIT_FAILURE = 1"

subsection \<open>\<^verbatim>\<open>parseArgs\<close>\<close>

text \<open>
  One iteration of the loop of \<^verbatim>\<open>parseArgs\<close>. The launch type is set before the
  \<^verbatim>\<open>try\<close> block. Inside it the converted count is a local variable that is only compared
  with 2 and 16; the handler catches \<^verbatim>\<open>std::invalid_argument\<close> alone, so the
  \<^verbatim>\<open>std::out_of_range\<close> of \<^verbatim>\<open>std::stoi\<close> leaves \<^verbatim>\<open>parseArgs\<close> and, with no handler in
  \<^verbatim>\<open>main\<close>, ends the program through \<^verbatim>\<open>std::terminate\<close>. That outcome is \<open>Inl\<close>.
\<close>

datatype Uncaught = std_out_of_range

definition fallback :: "Config \<Rightarrow> Config" where
  "fallback config = config\<lparr>serverOptions := (serverOptions config)\<lparr>maxConnections := 4\<rparr>\<rparr>"

definition parseOption ::
  "Config \<times> Event list \<Rightarrow> string \<times> string \<Rightarrow> Uncaught + Config \<times> Event list" where
  "parseOption st option =
     (let (config, out) = st; (first, second) = option in
      if first = ''-server'' then
        (let config1 = config\<lparr>launchType := Server\<rparr> in
         case stoi second of
           out_of_range \<Rightarrow> Inl std_out_of_range
         | invalid_argument \<Rightarrow>
             Inr (fallback config1, out @ [UnableToSetMaxConnections NoConversion])
         | Converted maxConnections' \<Rightarrow>
             if maxConnections' < 2 then
               Inr (fallback config1, out @ [UnableToSetMaxConnections AtLeastMinimum])
             else if maxConnections' > 16 then
               Inr (fallback config1, out @ [UnableToSetMaxConnections MaximumOrBelow])
             else Inr (config1, out))
      else if first = ''-client'' then Inr (config\<lparr>launchType := Client\<rparr>, out)
      else if first = ''-skin'' then
        Inr (config\<lparr>clientOptions := (clientOptions config)\<lparr>skinName := second\<rparr>\<rparr>, out)
      else Inr (config, out))"

fun parseArgs_loop ::
  "Config \<times> Event list \<Rightarrow> (string \<times> string) list \<Rightarrow> Uncaught + Config \<times> Event list" where
  "parseArgs_loop st [] = Inr st"
| "parseArgs_loop st (option # args) =
     (case parseOption st option of
        Inl e \<Rightarrow> Inl e
      | Inr st' \<Rightarrow> parseArgs_loop st' args)"

definition parseArgs :: "Config \<Rightarrow> (string \<times> string) list \<Rightarrow> Uncaught + Config \<times> Event list" where
  "parseArgs config args = parseArgs_loop (config, []) args"

text \<open>
  The loop of \<^verbatim>\<open>main\<close> that pairs the arguments: for \<open>i\<close> from 1, \<^verbatim>\<open>argv[i]\<close> is paired
  with \<^verbatim>\<open>argv[i + 1]\<close> when it starts with a dash and is not the last argument.
\<close>

definition starts_with_dash :: "string \<Rightarrow> bool" where
  "starts_with_dash a = (case a of [] \<Rightarrow> False | c # _ \<Rightarrow> c = CHR ''-'')"

fun pair_up :: "string list \<Rightarrow> (string \<times> string) list" where
  "pair_up (a # b # rest) =
     (if starts_with_dash a then (a, b) # pair_up (b # rest) else pair_up (b # rest))"
| "pair_up _ = []"

definition collect_args :: "string list \<Rightarrow> (string \<times> string) list" where
  "collect_args argv = pair_up (tl argv)"


subsection \<open>The input stream of \<^verbatim>\<open>loadFromConfigFile\<close>\<close>

text \<open>
  A \<^verbatim>\<open>std::ifstream\<close>: the characters not yet read and two of its state bits. A file that
  cannot be opened gives a stream with \<^verbatim>\<open>failbit\<close> set.
\<close>

record ifstream =
  buffer :: string
  eofbit :: bool
  failbit :: bool

definition open_file :: "string option \<Rightarrow> ifstream" where
  "open_file file =
     (case file of
        None \<Rightarrow> \<lparr>buffer = [], eofbit = False, failbit = True\<rparr>
      | Some content \<Rightarrow> \<lparr>buffer = content, eofbit = False, failbit = False\<rparr>)"

text \<open>
  The sentry of a formatted extraction: on a stream that is not \<^verbatim>\<open>good()\<close> it sets
  \<^verbatim>\<open>failbit\<close> and refuses; otherwise it skips white space, and refuses with
  \<^verbatim>\<open>eofbit | failbit\<close> when nothing is left.
\<close>

definition sentry :: "ifstream \<Rightarrow> bool \<times> ifstream" where
  "sentry s =
     (if eofbit s \<or> failbit s then (False, s\<lparr>failbit := True\<rparr>)
      else let rest = dropWhile isspace (buffer s) in
           if rest = [] then (False, s\<lparr>buffer := [], eofbit := True, failbit := True\<rparr>)
           else (True, s\<lparr>buffer := rest\<rparr>))"

text \<open>
  \<^verbatim>\<open>inFile >> line\<close> for a \<^verbatim>\<open>std::string\<close>: the characters up to the next white space;
  \<^verbatim>\<open>eofbit\<close> when the end of the file stops the token. \<open>None\<close> means that nothing was
  stored.
\<close>

definition extract_string :: "ifstream \<Rightarrow> string option \<times> ifstream" where
  "extract_string s =
     (let (ok, s1) = sentry s in
      if \<not> ok then (None, s1)
      else let rest = dropWhile (\<lambda>c. \<not> isspace c) (buffer s1) in
           (Some (takeWhile (\<lambda>c. \<not> isspace c) (buffer s1)),
            s1\<lparr>buffer := rest, eofbit := (rest = [])\<rparr>))"

text \<open>
  The digits of a \<^verbatim>\<open>long\<close>, as \<^verbatim>\<open>num_get\<close> reads them in the default (decimal) base: an
  optional sign, then digits. With no digit the value stored is 0 and \<^verbatim>\<open>failbit\<close> is
  set. The result is the number read (unbounded here; the callers narrow it), whether a
  digit was found, and the stream.
\<close>

definition extract_number :: "ifstream \<Rightarrow> int \<times> bool \<times> ifstream" where
  "extract_number s1 =
     (let (neg, b) = read_sign (buffer s1);
          ds = takeWhile isdigit b;
          rest = dropWhile isdigit b;
          s2 = s1\<lparr>buffer := rest, eofbit := (rest = [])\<rparr>
      in if ds = [] then (0, False, s2\<lparr>failbit := True\<rparr>)
         else ((if neg then - decimal ds else decimal ds), True, s2))"

text \<open>
  \<^verbatim>\<open>inFile >> n\<close> for an \<^verbatim>\<open>int\<close>: a value outside the range of \<^verbatim>\<open>int\<close> stores the
  nearest bound and sets \<^verbatim>\<open>failbit\<close>.
\<close>

definition extract_int :: "ifstream \<Rightarrow> int option \<times> ifstream" where
  "extract_int s =
     (let (ok, s1) = sentry s in
      if \<not> ok then (None, s1)
      else let (v, found, s2) = extract_number s1 in
           if v < INT_MIN then (Some INT_MIN, s2\<lparr>failbit := True\<rparr>)
           else if INT_MAX < v then (Some INT_MAX, s2\<lparr>failbit := True\<rparr>)
           else (Some v, s2))"

text \<open>
  \<^verbatim>\<open>inFile >> b\<close> for a \<^verbatim>\<open>bool\<close> (no \<^verbatim>\<open>boolalpha\<close>): 0 is false, 1 is true, any other
  number stores true and sets \<^verbatim>\<open>failbit\<close>.
\<close>

definition extract_bool :: "ifstream \<Rightarrow> bool option \<times> ifstream" where
  "extract_bool s =
     (let (ok, s1) = sentry s in
      if \<not> ok then (None, s1)
      else let (v, found, s2) = extract_number s1 in
           if v = 0 then (Some False, s2)
           else if v = 1 then (Some True, s2)
           else (Some True, s2\<lparr>failbit := True\<rparr>))"

subsection \<open>\<^verbatim>\<open>loadFromConfigFile\<close>\<close>

text \<open>Storing an extracted value into a field; nothing is stored when the sentry refused.\<close>

definition store :: "('a \<Rightarrow> Config \<Rightarrow> Config) \<Rightarrow> 'a option \<times> ifstream \<Rightarrow> Config \<Rightarrow> Config \<times> ifstream" where
  "store upd r config = (case fst r of None \<Rightarrow> (config, snd r) | Some v \<Rightarrow> (upd v config, snd r))"

definition client_upd :: "(ClientConfig \<Rightarrow> ClientConfig) \<Rightarrow> Config \<Rightarrow> Config" where
  "client_upd f config = config\<lparr>clientOptions := f (clientOptions config)\<rparr>"

definition server_upd :: "(ServerConfig \<Rightarrow> ServerConfig) \<Rightarrow> Config \<Rightarrow> Config" where
  "server_upd f config = config\<lparr>serverOptions := f (serverOptions config)\<rparr>"

text \<open>The body of the \<^verbatim>\<open>while\<close> loop: the chain of comparisons of the key just read.\<close>

definition read_option :: "string \<Rightarrow> Config \<Rightarrow> ifstream \<Rightarrow> Config \<times> ifstream" where
  "read_option line config inFile =
     (if line = ''FULLSCREEN'' then
        store (\<lambda>v. client_upd (\<lambda>c. c\<lparr>fullScreen := v\<rparr>)) (extract_bool inFile) config
      else if line = ''WIN_WIDTH'' then
        store (\<lambda>v. client_upd (\<lambda>c. c\<lparr>windowWidth := v\<rparr>)) (extract_int inFile) config
      else if line = ''WIN_HEIGHT'' then
        store (\<lambda>v. client_upd (\<lambda>c. c\<lparr>windowHeight := v\<rparr>)) (extract_int inFile) config
      else if line = ''FPS_CAPPED'' then
        store (\<lambda>v. client_upd (\<lambda>c. c\<lparr>isFpsCapped := v\<rparr>)) (extract_bool inFile) config
      else if line = ''FPS'' then
        store (\<lambda>v. client_upd (\<lambda>c. c\<lparr>fpsLimit := v\<rparr>)) (extract_int inFile) config
      else if line = ''FOV'' then
        store (\<lambda>v. client_upd (\<lambda>c. c\<lparr>fov := v\<rparr>)) (extract_int inFile) config
      else if line = ''SKIN'' then
        store (\<lambda>v. client_upd (\<lambda>c. c\<lparr>skinName := v\<rparr>)) (extract_string inFile) config
      else if line = ''WORLD_HEIGHT'' then
        store (\<lambda>v. server_upd (\<lambda>c. c\<lparr>worldHeight := v\<rparr>)) (extract_int inFile) config
      else if line = ''WORLD_SIZE'' then
        store (\<lambda>v. server_upd (\<lambda>c. c\<lparr>worldSize := v\<rparr>)) (extract_int inFile) config
      else (config, inFile))"

text \<open>Every extraction leaves a suffix of the buffer, and a key read takes a character.\<close>

lemma sentry_length: "length (buffer (snd (sentry s))) \<le> length (buffer s)"
  by (simp add: sentry_def Let_def length_dropWhile_le)

lemma sentry_ok_nonspace:
  "sentry s = (True, s1) \<Longrightarrow> buffer s1 \<noteq> [] \<and> \<not> isspace (hd (buffer s1))"
proof -
  assume a: "sentry s = (True, s1)"
  then have ne: "dropWhile isspace (buffer s) \<noteq> []" and b: "buffer s1 = dropWhile isspace (buffer s)"
    by (auto simp: sentry_def Let_def split: if_splits)
  from ne have "\<not> isspace (hd (dropWhile isspace (buffer s)))" by (rule hd_dropWhile)
  with ne b show ?thesis by simp
qed

lemma extract_string_length:
  "length (buffer (snd (extract_string s))) \<le> length (buffer s)"
proof -
  obtain ok s1 where s1: "sentry s = (ok, s1)" by (cases "sentry s")
  have "length (buffer s1) \<le> length (buffer s)" using sentry_length [of s] s1 by simp
  moreover have "length (dropWhile (\<lambda>c. \<not> isspace c) (buffer s1)) \<le> length (buffer s1)"
    by (rule length_dropWhile_le)
  ultimately show ?thesis by (simp add: extract_string_def s1 Let_def)
qed

lemma extract_string_Some_shorter:
  assumes "extract_string s = (Some line, s')"
  shows "length (buffer s') < length (buffer s)"
proof -
  obtain ok s1 where s1: "sentry s = (ok, s1)" by (cases "sentry s")
  from assms s1 have ok: "ok" by (auto simp: extract_string_def Let_def split: if_splits)
  with s1 have "buffer s1 \<noteq> [] \<and> \<not> isspace (hd (buffer s1))"
    using sentry_ok_nonspace [of s s1] by simp
  then have ne: "buffer s1 \<noteq> []" and ns: "\<not> isspace (hd (buffer s1))" by simp_all
  then obtain c cs where c: "buffer s1 = c # cs" "\<not> isspace c" by (cases "buffer s1") auto
  have "length (dropWhile (\<lambda>c. \<not> isspace c) (buffer s1)) \<le> length cs"
    using c by (simp add: length_dropWhile_le)
  then have "length (dropWhile (\<lambda>c. \<not> isspace c) (buffer s1)) < length (buffer s1)"
    using c by simp
  moreover have "length (buffer s1) \<le> length (buffer s)" using sentry_length [of s] s1 by simp
  moreover have "buffer s' = dropWhile (\<lambda>c. \<not> isspace c) (buffer s1)"
    using assms s1 ok by (auto simp: extract_string_def Let_def)
  ultimately show ?thesis by simp
qed

lemma read_sign_length: "length (snd (read_sign b)) \<le> length b"
  by (cases b) (simp_all add: read_sign_def)

lemma extract_number_length:
  "length (buffer (snd (snd (extract_number s)))) \<le> length (buffer s)"
proof -
  obtain neg b where b: "read_sign (buffer s) = (neg, b)" by (cases "read_sign (buffer s)")
  have "length b \<le> length (buffer s)" using read_sign_length [of "buffer s"] b by simp
  moreover have "length (dropWhile isdigit b) \<le> length b" by (rule length_dropWhile_le)
  ultimately show ?thesis by (simp add: extract_number_def b Let_def)
qed

lemma extract_int_length: "length (buffer (snd (extract_int s))) \<le> length (buffer s)"
proof -
  obtain ok s1 where s1: "sentry s = (ok, s1)" by (cases "sentry s")
  obtain v found s2 where s2: "extract_number s1 = (v, found, s2)" by (cases "extract_number s1")
  have "length (buffer s1) \<le> length (buffer s)" using sentry_length [of s] s1 by simp
  moreover have "length (buffer s2) \<le> length (buffer s1)"
    using extract_number_length [of s1] s2 by simp
  ultimately show ?thesis by (simp add: extract_int_def s1 s2 Let_def)
qed

lemma extract_bool_length: "length (buffer (snd (extract_bool s))) \<le> length (buffer s)"
proof -
  obtain ok s1 where s1: "sentry s = (ok, s1)" by (cases "sentry s")
  obtain v found s2 where s2: "extract_number s1 = (v, found, s2)" by (cases "extract_number s1")
  have "length (buffer s1) \<le> length (buffer s)" using sentry_length [of s] s1 by simp
  moreover have "length (buffer s2) \<le> length (buffer s1)"
    using extract_number_length [of s1] s2 by simp
  ultimately show ?thesis by (simp add: extract_bool_def s1 s2 Let_def)
qed

lemma snd_store [simp]: "snd (store upd r config) = snd r"
  by (simp add: store_def split: option.splits)

lemma read_option_length:
  "length (buffer (snd (read_option line config s))) \<le> length (buffer s)"
  by (simp add: read_option_def extract_int_length extract_bool_length extract_string_length)

text \<open>
  The loop \<^verbatim>\<open>while (inFile >> line)\<close>: it ends when the extraction of a key fails, which
  it does at the end of the file and on a stream in a failed state.
\<close>

function loadLoop :: "Config \<Rightarrow> ifstream \<Rightarrow> Config" where
  "loadLoop config inFile =
     (case extract_string inFile of
        (None, _) \<Rightarrow> config
      | (Some line, s1) \<Rightarrow>
          (case read_option line config s1 of (config', s2) \<Rightarrow> loadLoop config' s2))"
  by pat_completeness auto

termination
proof (relation "measure (\<lambda>(config, s). length (buffer s))", goal_cases)
  case 1
  show ?case by simp
next
  case (2 config inFile x1 x2 line x y)
  have a: "length (buffer x2) < length (buffer inFile)"
    using 2 extract_string_Some_shorter [of inFile line x2] by simp
  have "length (buffer y) \<le> length (buffer x2)"
    using 2 read_option_length [of line config x2] by (metis snd_conv)
  with a show ?case by simp
qed

declare loadLoop.simps [simp del]

definition loadFromConfigFile :: "Config \<Rightarrow> string option \<Rightarrow> Config" where
  "loadFromConfigFile config file = loadLoop config (open_file file)"

text \<open>
  The option that a key of the file names, for stating which options a run of the loader
  leaves alone. The keys are those of the comparison chain; six of them are read as
  \<^verbatim>\<open>int\<close>.
\<close>

datatype OptionValue = Flag bool | Number int | Text string

definition option_value :: "string \<Rightarrow> Config \<Rightarrow> OptionValue option" where
  "option_value key config =
     (if key = ''FULLSCREEN'' then Some (Flag (fullScreen (clientOptions config)))
      else if key = ''WIN_WIDTH'' then Some (Number (windowWidth (clientOptions config)))
      else if key = ''WIN_HEIGHT'' then Some (Number (windowHeight (clientOptions config)))
      else if key = ''FPS_CAPPED'' then Some (Flag (isFpsCapped (clientOptions config)))
      else if key = ''FPS'' then Some (Number (fpsLimit (clientOptions config)))
      else if key = ''FOV'' then Some (Number (fov (clientOptions config)))
      else if key = ''SKIN'' then Some (Text (skinName (clientOptions config)))
      else if key = ''WORLD_HEIGHT'' then Some (Number (worldHeight (serverOptions config)))
      else if key = ''WORLD_SIZE'' then Some (Number (worldSize (serverOptions config)))
      else None)"

definition config_keys :: "string list" where
  "config_keys = [''FULLSCREEN'', ''WIN_WIDTH'', ''WIN_HEIGHT'', ''FPS_CAPPED'', ''FPS'', ''FOV'',
                  ''SKIN'', ''WORLD_HEIGHT'', ''WORLD_SIZE'']"

definition int_keys :: "string list" where
  "int_keys = [''WIN_WIDTH'', ''WIN_HEIGHT'', ''FPS'', ''FOV'', ''WORLD_HEIGHT'', ''WORLD_SIZE'']"


subsection \<open>The launch functions\<close>

text \<open>
  Each launch function returns its exit flag and what it printed and ran. The status
  with which an engine comes back is an argument: \<^verbatim>\<open>runServerEngine\<close> and
  \<^verbatim>\<open>runClientEngine\<close> are outside the available sources.
\<close>

definition exitSuccess :: "string \<Rightarrow> int \<times> Event list" where
  "exitSuccess message = (EXIT_SUCCESS, [EngineExitedSuccessfully message])"

definition exitFailure :: "string \<Rightarrow> int \<times> Event list" where
  "exitFailure message = (EXIT_FAILURE, [EngineExitedWithError message])"

text \<open>\<^verbatim>\<open>launchServer\<close> drops what \<^verbatim>\<open>runServerEngine\<close> returns.\<close>

definition launchServer :: "ServerConfig \<Rightarrow> int \<Rightarrow> EngineStatus \<Rightarrow> int \<times> Event list" where
  "launchServer config timeout serverStatus =
     (EXIT_SUCCESS,
      [Log ''Launcher'' ''Launching server'',
       RunServerEngine config timeout,
       Log ''Launcher'' ''Server has exited.''])"

definition launchClient :: "ClientConfig \<Rightarrow> EngineStatus \<Rightarrow> int \<times> Event list" where
  "launchClient config clientStatus =
     (let (code, out) =
        (case clientStatus of
           Exit \<Rightarrow> exitSuccess ''Normal exit''
         | Ok \<Rightarrow> exitSuccess ''Normal exit''
         | ExitServerDisconnect \<Rightarrow> exitSuccess ''Client was disconnected from the server.''
         | ExitServerTimeout \<Rightarrow>
             exitSuccess ''Server timeout, client forcefully was disconnected.''
         | GLInitError \<Rightarrow> exitFailure ''OpenGL failed to initilise correctly''
         | CouldNotConnect \<Rightarrow> exitFailure ''Connection to server could not be established''
         | Unrecognised \<Rightarrow> exitFailure ''Unknown error'')
      in (code, [Log ''Launcher'' ''Launching client'', RunClientEngine config] @ out))"

text \<open>
  A \<^verbatim>\<open>std::thread\<close> runs its function and drops the value it returns: the trace of the
  launching thread records the start and the join only. The default time-out of
  \<^verbatim>\<open>launchServer\<close> is \<^verbatim>\<open>sf::seconds(8)\<close>.
\<close>

definition launchBoth :: "Config \<Rightarrow> EngineStatus \<Rightarrow> EngineStatus \<Rightarrow> int \<times> Event list" where
  "launchBoth config serverStatus clientStatus =
     (let serverThread = ServerThread (serverOptions config) 5000;
          (exit, out) = launchClient (clientOptions config) clientStatus
      in (exit, [ThreadStart serverThread, SleepFor 6500] @ out @ [ThreadJoin serverThread]))"

definition launchServerAnd2Players ::
  "Config \<Rightarrow> EngineStatus \<Rightarrow> EngineStatus \<Rightarrow> EngineStatus \<Rightarrow> int \<times> Event list" where
  "launchServerAnd2Players config serverStatus clientStatus client2Status =
     (let serverThread = ServerThread (serverOptions config) 20000;
          client2 = ClientThread (clientOptions config);
          (exit, out) = launchClient (clientOptions config) clientStatus
      in (exit,
          [ThreadStart serverThread, SleepFor 1000, ThreadStart client2] @ out
          @ [ThreadJoin client2, ThreadJoin serverThread]))"

text \<open>What a started thread does, and the value that the thread object drops.\<close>

definition thread_run :: "ThreadBody \<Rightarrow> EngineStatus \<Rightarrow> int \<times> Event list" where
  "thread_run body status =
     (case body of
        ServerThread config timeout \<Rightarrow> launchServer config timeout status
      | ClientThread config \<Rightarrow> launchClient config status)"

subsection \<open>\<^verbatim>\<open>main\<close>\<close>

text \<open>
  Everything \<^verbatim>\<open>main\<close> depends on: what \<^verbatim>\<open>enet_initialize\<close> returns, the argument
  vector (with \<^verbatim>\<open>argv[0]\<close>), the content of \<^verbatim>\<open>config.txt\<close> if the file exists, the
  defaults of the two option structs, and the status of each engine that is run.
\<close>

record Environment =
  enet_initialize_result :: int
  argv :: "string list"
  config_txt :: "string option"
  serverDefaults :: ServerConfig
  clientDefaults :: ClientConfig
  serverStatus :: EngineStatus
  clientStatus :: EngineStatus
  client2Status :: EngineStatus

text \<open>The program returns an exit code, or ends in \<^verbatim>\<open>std::terminate\<close> on an uncaught exception.\<close>

datatype Outcome = Returned int | Terminated Uncaught

text \<open>
  The \<^verbatim>\<open>switch\<close> of \<^verbatim>\<open>main\<close>: \<open>Some\<close> is a \<^verbatim>\<open>return\<close> inside a case, \<open>None\<close> is control
  reaching the statement after the switch.
\<close>

definition launch_switch :: "Config \<Rightarrow> Environment \<Rightarrow> (int \<times> Event list) option" where
  "launch_switch config env =
     (case launchType config of
        Both \<Rightarrow> Some (launchBoth config (serverStatus env) (clientStatus env))
      | Server \<Rightarrow> Some (launchServer (serverOptions config) 8000 (serverStatus env))
      | Client \<Rightarrow> Some (launchClient (clientOptions config) (clientStatus env))
      | TwoPlayer \<Rightarrow>
          Some (launchServerAnd2Players config (serverStatus env) (clientStatus env)
                  (client2Status env)))"

definition parsed_config :: "Environment \<Rightarrow> Uncaught + Config \<times> Event list" where
  "parsed_config env =
     parseArgs
       (loadFromConfigFile (default_Config (serverDefaults env) (clientDefaults env))
          (config_txt env))
       (collect_args (argv env))"

definition main :: "Environment \<Rightarrow> Outcome \<times> Event list" where
  "main env =
     (if enet_initialize_result env \<noteq> 0 then
        (let (code, out) = exitFailure ''Failed to initialise enet''
         in (Returned code, [EnetInitialize] @ out))
      else
        (case parsed_config env of
           Inl e \<Rightarrow> (Terminated e, [EnetInitialize])
         | Inr (config, out) \<Rightarrow>
             (case launch_switch config env of
                Some (code, out') \<Rightarrow> (Returned code, [EnetInitialize] @ out @ out')
              | None \<Rightarrow> (Returned 0, [EnetInitialize] @ out @ [EnetDeinitialize]))))"

section \<open>Endpoints: \<^verbatim>\<open>src/common/common/network/endpoint.h\<close>\<close>

text \<open>
  \<^verbatim>\<open>sf::IpAddress\<close> belongs to SFML: it keeps the address as 32 bits in network byte
  order, with a validity flag, and \<^verbatim>\<open>toInteger\<close> returns the address in host byte order
  (\<^verbatim>\<open>ntohl\<close>, a byte swap on a little-endian host). \<^verbatim>\<open>port_t\<close> is declared in
  \<^verbatim>\<open>types.h\<close>, outside the available sources; a port has 16 bits.
\<close>

record IpAddress =
  m_address :: "32 word"
  m_valid :: bool

definition ntohl :: "32 word \<Rightarrow> 32 word" where
  "ntohl x =
     or (push_bit 24 (take_bit 8 x))
       (or (push_bit 16 (take_bit 8 (drop_bit 8 x)))
          (or (push_bit 8 (take_bit 8 (drop_bit 16 x))) (drop_bit 24 x)))"

definition toInteger :: "IpAddress \<Rightarrow> 32 word" where
  "toInteger a = ntohl (m_address a)"

record Endpoint =
  address :: IpAddress
  port :: "16 word"

text \<open>\<^verbatim>\<open>operator==(const Endpoint&, const Endpoint&)\<close>\<close>

definition Endpoint_eq :: "Endpoint \<Rightarrow> Endpoint \<Rightarrow> bool" where
  "Endpoint_eq left right =
     (port left = port right \<and> toInteger (address left) = toInteger (address right))"


section \<open>Sample inputs\<close>

text \<open>
  A concrete environment for evaluating the launcher: option defaults, a program name in
  front of the arguments given, engines that exit normally.
\<close>

definition example_ServerConfig :: ServerConfig where
  "example_ServerConfig = \<lparr>maxConnections = 4, worldHeight = 32, worldSize = 16\<rparr>"

definition example_ClientConfig :: ClientConfig where
  "example_ClientConfig =
     \<lparr>fullScreen = False, windowWidth = 1280, windowHeight = 720, isFpsCapped = True,
      fpsLimit = 60, fov = 65, skinName = ''player''\<rparr>"

definition example_Environment :: "string list \<Rightarrow> string option \<Rightarrow> Environment" where
  "example_Environment args file =
     \<lparr>enet_initialize_result = 0, argv = ''open-builder'' # args, config_txt = file,
      serverDefaults = example_ServerConfig, clientDefaults = example_ClientConfig,
      serverStatus = Exit, clientStatus = Exit, client2Status = Exit\<rparr>"


definition example_Config :: Config where
  "example_Config = default_Config example_ServerConfig example_ClientConfig"

section \<open>Properties\<close>

lemmas exit_defs = exitSuccess_def exitFailure_def EXIT_SUCCESS_def EXIT_FAILURE_def

lemmas char_defs = isspace_def isdigit_def digit_value_def decimal_def read_sign_def
  INT_MIN_def INT_MAX_def

lemmas example_defs = example_Environment_def example_ServerConfig_def example_ClientConfig_def

lemmas stream_defs = open_file_def sentry_def extract_string_def extract_number_def
  extract_int_def extract_bool_def store_def client_upd_def server_upd_def read_option_def

lemmas parse_defs = parsed_config_def parseArgs_def parseOption_def stoi_def fallback_def
  collect_args_def starts_with_dash_def default_Config_def loadFromConfigFile_def loadLoop.simps

lemmas launch_defs = main_def launch_switch_def launchClient_def launchServer_def
  launchBoth_def launchServerAnd2Players_def

lemmas eval_defs = example_defs launch_defs parse_defs stream_defs char_defs exit_defs


subsection \<open>Exit codes\<close>

lemma fst_launchClient:
  "fst (launchClient config st) =
     (case st of GLInitError \<Rightarrow> 1 | CouldNotConnect \<Rightarrow> 1 | Unrecognised \<Rightarrow> 1 | _ \<Rightarrow> 0)"
  by (cases st) (simp_all add: launchClient_def exit_defs)

lemma main_launch:
  assumes "enet_initialize_result env = 0" and "parsed_config env = Inr (config, out)"
    and "launch_switch config env = Some r"
  shows "main env = (Returned (fst r), [EnetInitialize] @ out @ snd r)"
  using assms by (cases r) (simp add: main_def)

lemma main_enet_failure:
  "enet_initialize_result env \<noteq> 0 \<Longrightarrow>
   main env = (Returned EXIT_FAILURE,
               [EnetInitialize, EngineExitedWithError ''Failed to initialise enet''])"
  by (simp add: main_def exitFailure_def)


text \<open>
  C3. The client launcher returns 0 for a normal exit (\<open>Exit\<close>, \<open>Ok\<close>), for a disconnect
  started by the server and for a server time-out, and 1 for a failed OpenGL
  initialisation, a connection that could not be established and any status it does not
  recognise. \<^verbatim>\<open>main\<close> returns 1 when \<^verbatim>\<open>enet_initialize\<close> fails, and in client-only mode
  it returns what the client launcher returns.
\<close>

theorem client_exit_codes:
  "fst (launchClient config Exit) = 0 \<and> fst (launchClient config Ok) = 0
   \<and> fst (launchClient config ExitServerDisconnect) = 0
   \<and> fst (launchClient config ExitServerTimeout) = 0
   \<and> fst (launchClient config GLInitError) = 1
   \<and> fst (launchClient config CouldNotConnect) = 1
   \<and> fst (launchClient config Unrecognised) = 1
   \<and> (enet_initialize_result env \<noteq> 0 \<longrightarrow> fst (main env) = Returned 1)
   \<and> (enet_initialize_result env' = 0 \<and> parsed_config env' = Inr (config', out)
        \<and> launchType config' = Client
      \<longrightarrow> fst (main env') = Returned (fst (launchClient (clientOptions config') (clientStatus env'))))"
proof -
  have a: "enet_initialize_result env \<noteq> 0 \<longrightarrow> fst (main env) = Returned 1"
    by (simp add: main_enet_failure EXIT_FAILURE_def)
  have b: "enet_initialize_result env' = 0 \<and> parsed_config env' = Inr (config', out)
        \<and> launchType config' = Client
      \<longrightarrow> fst (main env') = Returned (fst (launchClient (clientOptions config') (clientStatus env')))"
  proof (intro impI, elim conjE)
    assume h: "enet_initialize_result env' = 0" "parsed_config env' = Inr (config', out)"
      "launchType config' = Client"
    have "launch_switch config' env'
          = Some (launchClient (clientOptions config') (clientStatus env'))"
      using h(3) by (simp add: launch_switch_def)
    from main_launch [OF h(1) h(2) this] show
      "fst (main env') = Returned (fst (launchClient (clientOptions config') (clientStatus env')))"
      by simp
  qed
  show ?thesis using a b by (simp add: fst_launchClient)
qed

theorem client_exit_codes_witness:
  "fst (main ((example_Environment [] None)\<lparr>enet_initialize_result := - 1\<rparr>)) = Returned 1
   \<and> fst (main ((example_Environment [''-client'', ''x''] None)\<lparr>clientStatus := CouldNotConnect\<rparr>)) = Returned 1
   \<and> fst (main ((example_Environment [''-client'', ''x''] None)\<lparr>clientStatus := ExitServerTimeout\<rparr>)) = Returned 0"
  using client_exit_codes [of example_ClientConfig
      "(example_Environment [] None)\<lparr>enet_initialize_result := - 1\<rparr>"
      "(example_Environment [''-client'', ''x''] None)\<lparr>clientStatus := CouldNotConnect\<rparr>"
      "default_Config example_ServerConfig example_ClientConfig\<lparr>launchType := Client\<rparr>" "[]"]
    client_exit_codes [of example_ClientConfig
      "(example_Environment [] None)\<lparr>enet_initialize_result := - 1\<rparr>"
      "(example_Environment [''-client'', ''x''] None)\<lparr>clientStatus := ExitServerTimeout\<rparr>"
      "default_Config example_ServerConfig example_ClientConfig\<lparr>launchType := Client\<rparr>" "[]"]
  by (simp add: example_defs parse_defs stream_defs char_defs)


text \<open>
  C10. With several instances the exit code is the one of the client that runs on the
  launching thread: the server launcher returns \<open>EXIT_SUCCESS\<close> whatever the server
  engine did, and neither its value nor the status of the second client reaches the result
  of \<^verbatim>\<open>launchBoth\<close> and \<^verbatim>\<open>launchServerAnd2Players\<close>, which \<^verbatim>\<open>main\<close> returns unchanged.
\<close>

theorem multi_instance_exit_code:
  "fst (launchServer sconfig timeout srv) = EXIT_SUCCESS
   \<and> fst (thread_run (ServerThread sconfig timeout) srv) = EXIT_SUCCESS
   \<and> fst (launchBoth config srv cl)
       = fst (launchClient (clientOptions config) cl)
   \<and> fst (launchServerAnd2Players config srv cl cl2)
       = fst (launchClient (clientOptions config) cl)
   \<and> map_option fst (launch_switch (config\<lparr>launchType := Both\<rparr>) env)
       = Some (fst (launchClient (clientOptions config) (clientStatus env)))
   \<and> map_option fst (launch_switch (config\<lparr>launchType := TwoPlayer\<rparr>) env)
       = Some (fst (launchClient (clientOptions config) (clientStatus env)))"
  by (simp add: launchServer_def thread_run_def launchBoth_def launchServerAnd2Players_def
      launch_switch_def Let_def split: prod.splits)


subsection \<open>The network library context\<close>

lemma snd_launchClient_no_enet:
  "EnetDeinitialize \<notin> set (snd (launchClient config st))"
  by (cases st) (simp_all add: launchClient_def exit_defs)

lemma launch_switch_Some: "\<exists>r. launch_switch config env = Some r"
  by (cases "launchType config") (simp_all add: launch_switch_def)

lemma launch_switch_no_deinit:
  "launch_switch config env = Some (code, out) \<Longrightarrow> EnetDeinitialize \<notin> set out"
  using snd_launchClient_no_enet [of "clientOptions config" "clientStatus env"]
  by (cases "launchType config")
     (auto simp: launch_switch_def launchBoth_def launchServer_def launchServerAnd2Players_def
           Let_def split: prod.splits)

lemma parseOption_no_deinit:
  "parseOption (config, out) opt = Inr (config', out') \<Longrightarrow> EnetDeinitialize \<notin> set out
   \<Longrightarrow> EnetDeinitialize \<notin> set out'"
  by (cases opt) (auto simp: parseOption_def Let_def split: if_splits stoi_result.splits)

lemma parseArgs_loop_no_deinit:
  "parseArgs_loop (config, out) args = Inr (config', out') \<Longrightarrow> EnetDeinitialize \<notin> set out
   \<Longrightarrow> EnetDeinitialize \<notin> set out'"
proof (induction args arbitrary: config out)
  case Nil
  then show ?case by simp
next
  case (Cons a args)
  then show ?case
    by (auto split: sum.splits dest: parseOption_no_deinit)
qed


text \<open>
  C4. The call of \<^verbatim>\<open>enet_deinitialize\<close> stands after a \<^verbatim>\<open>switch\<close> whose four cases all
  return: no run of \<^verbatim>\<open>main\<close> ever reaches it. The sample run in client-only mode
  initialises the library, runs the client and returns; and for every environment the
  trace of \<^verbatim>\<open>main\<close> holds no release at all.
\<close>

theorem enet_never_released:
  "snd (main (example_Environment [''-client'', ''x''] None))
     = [EnetInitialize, Log ''Launcher'' ''Launching client'',
        RunClientEngine example_ClientConfig, EngineExitedSuccessfully ''Normal exit'']
   \<and> count_list (snd (main env)) EnetDeinitialize = 0"
proof -
  have sample: "snd (main (example_Environment [''-client'', ''x''] None))
     = [EnetInitialize, Log ''Launcher'' ''Launching client'',
        RunClientEngine example_ClientConfig, EngineExitedSuccessfully ''Normal exit'']"
    by (simp add: example_defs launch_defs parse_defs stream_defs char_defs exit_defs)
  have "EnetDeinitialize \<notin> set (snd (main env))"
  proof (cases "enet_initialize_result env \<noteq> 0")
    case True
    then show ?thesis by (simp add: main_def exit_defs)
  next
    case False
    show ?thesis
    proof (cases "parsed_config env")
      case (Inl e)
      with False show ?thesis by (simp add: main_def)
    next
      case (Inr p)
      obtain config out where p: "p = (config, out)" by (cases p)
      obtain code out' where sw: "launch_switch config env = Some (code, out')"
        using launch_switch_Some [of config env] by (cases "the (launch_switch config env)") auto
      have "EnetDeinitialize \<notin> set out"
        using Inr p parseArgs_loop_no_deinit [of _ "[]" _ config out]
        by (simp add: parsed_config_def parseArgs_def)
      moreover have "EnetDeinitialize \<notin> set out'" using sw by (rule launch_switch_no_deinit)
      ultimately show ?thesis using False Inr p sw by (simp add: main_def)
    qed
  qed
  then have "count_list (snd (main env)) EnetDeinitialize = 0"
    by (simp add: count_list_0_iff)
  with sample show ?thesis by simp
qed

subsection \<open>What \<^verbatim>\<open>parseArgs\<close> does to the launch type\<close>

lemma parseArgs_loop_append:
  "parseArgs_loop st (xs @ ys) =
     (case parseArgs_loop st xs of Inl e \<Rightarrow> Inl e | Inr st' \<Rightarrow> parseArgs_loop st' ys)"
  by (induction xs arbitrary: st) (simp_all split: sum.splits)

lemma parseOption_completes:
  "fst opt = ''-server'' \<longrightarrow> stoi (snd opt) \<noteq> out_of_range \<Longrightarrow> \<exists>st'. parseOption st opt = Inr st'"
  by (cases st; cases opt) (auto simp: parseOption_def Let_def split: stoi_result.splits)

lemma parseArgs_loop_completes:
  "\<forall>opt \<in> set args. fst opt = ''-server'' \<longrightarrow> stoi (snd opt) \<noteq> out_of_range
   \<Longrightarrow> \<exists>st'. parseArgs_loop st args = Inr st'"
proof (induction args arbitrary: st)
  case Nil
  then show ?case by simp
next
  case (Cons opt args)
  then obtain st1 where "parseOption st opt = Inr st1"
    using parseOption_completes [of opt st] by auto
  with Cons show ?case by simp
qed

lemma parseOption_other:
  "fst opt \<noteq> ''-server'' \<Longrightarrow> fst opt \<noteq> ''-client'' \<Longrightarrow>
   \<exists>config'. parseOption (config, out) opt = Inr (config', out)
     \<and> launchType config' = launchType config \<and> serverOptions config' = serverOptions config"
  by (cases opt) (simp add: parseOption_def)

lemma parseArgs_loop_other:
  "''-server'' \<notin> fst ` set args \<Longrightarrow> ''-client'' \<notin> fst ` set args \<Longrightarrow>
   \<exists>config'. parseArgs_loop (config, out) args = Inr (config', out)
     \<and> launchType config' = launchType config \<and> serverOptions config' = serverOptions config"
proof (induction args arbitrary: config)
  case Nil
  then show ?case by simp
next
  case (Cons opt args)
  then have "fst opt \<noteq> ''-server''" "fst opt \<noteq> ''-client''" by auto
  then obtain c1 where c1: "parseOption (config, out) opt = Inr (c1, out)"
    "launchType c1 = launchType config" "serverOptions c1 = serverOptions config"
    using parseOption_other [of opt config out] by blast
  from Cons have "''-server'' \<notin> fst ` set args" "''-client'' \<notin> fst ` set args" by auto
  from Cons.IH [OF this, of c1] c1 show ?case by auto
qed

lemma parseOption_keeps_Client:
  "fst opt \<noteq> ''-server'' \<Longrightarrow> launchType config = Client \<Longrightarrow>
   \<exists>config'. parseOption (config, out) opt = Inr (config', out) \<and> launchType config' = Client"
  by (cases opt) (simp add: parseOption_def)

lemma parseArgs_loop_keeps_Client:
  "''-server'' \<notin> fst ` set args \<Longrightarrow> launchType config = Client \<Longrightarrow>
   \<exists>config'. parseArgs_loop (config, out) args = Inr (config', out) \<and> launchType config' = Client"
proof (induction args arbitrary: config)
  case Nil
  then show ?case by simp
next
  case (Cons opt args)
  then have "fst opt \<noteq> ''-server''" by auto
  then obtain c1 where c1: "parseOption (config, out) opt = Inr (c1, out)" "launchType c1 = Client"
    using parseOption_keeps_Client [of opt config out] Cons.prems by blast
  from Cons have "''-server'' \<notin> fst ` set args" by auto
  from Cons.IH [OF this c1(2)] c1 show ?case by auto
qed

lemma parseOption_keeps_Server:
  "fst opt \<noteq> ''-client'' \<Longrightarrow> launchType config = Server \<Longrightarrow>
   parseOption (config, out) opt = Inr (config', out') \<Longrightarrow> launchType config' = Server"
  by (cases opt)
     (auto simp: parseOption_def fallback_def Let_def split: if_splits stoi_result.splits)

lemma parseArgs_loop_keeps_Server:
  "''-client'' \<notin> fst ` set args \<Longrightarrow> launchType config = Server \<Longrightarrow>
   parseArgs_loop (config, out) args = Inr (config', out') \<Longrightarrow> launchType config' = Server"
proof (induction args arbitrary: config out)
  case Nil
  then show ?case by simp
next
  case (Cons opt args)
  from Cons.prems(3) obtain c1 o1 where c1: "parseOption (config, out) opt = Inr (c1, o1)"
    and rest: "parseArgs_loop (c1, o1) args = Inr (config', out')"
    by (auto split: sum.splits)
  from Cons.prems have "fst opt \<noteq> ''-client''" by auto
  from parseOption_keeps_Server [OF this Cons.prems(2) c1] have "launchType c1 = Server" .
  moreover from Cons.prems have "''-client'' \<notin> fst ` set args" by auto
  ultimately show ?case using Cons.IH rest by blast
qed

lemma parseOption_server_sets_Server:
  "parseOption (config, out) (''-server'', v) = Inr (config', out') \<Longrightarrow> launchType config' = Server"
  by (auto simp: parseOption_def fallback_def Let_def split: if_splits stoi_result.splits)

lemma parseOption_client: 
  "parseOption (config, out) (''-client'', v) = Inr (config\<lparr>launchType := Client\<rparr>, out)"
  by (simp add: parseOption_def)

text \<open>In range: the launch type is set and nothing else is touched.\<close>
lemma parseOption_server_in_range:
  "stoi v = Converted n \<Longrightarrow> 2 \<le> n \<Longrightarrow> n \<le> 16 \<Longrightarrow>
   parseOption (config, out) (''-server'', v) = Inr (config\<lparr>launchType := Server\<rparr>, out)"
  by (simp add: parseOption_def)

lemma parseOption_server_fallback:
  "stoi v = invalid_argument \<or> (\<exists>n. stoi v = Converted n \<and> (n < 2 \<or> 16 < n)) \<Longrightarrow>
   \<exists>r. parseOption (config, out) (''-server'', v)
        = Inr (fallback (config\<lparr>launchType := Server\<rparr>), out @ [UnableToSetMaxConnections r])"
  by (auto simp: parseOption_def)

lemma parseOption_server_out_of_range:
  "stoi v = out_of_range \<Longrightarrow> parseOption st (''-server'', v) = Inl std_out_of_range"
  by (cases st) (simp add: parseOption_def)

lemma fst_pair_up: "fst ` set (pair_up xs) \<subseteq> set xs"
  by (induction xs rule: pair_up.induct) auto

lemma fst_collect_args: "fst ` set (collect_args av) \<subseteq> set (tl av)"
  by (simp add: collect_args_def fst_pair_up)

subsection \<open>Unfolding the loop of the loader\<close>

lemma loadLoop_stop: "fst (extract_string s) = None \<Longrightarrow> loadLoop config s = config"
  by (subst loadLoop.simps) (auto split: prod.splits)

lemma loadLoop_step:
  "extract_string s = (Some line, s1) \<Longrightarrow> read_option line config s1 = (config', s2) \<Longrightarrow>
   loadLoop config s = loadLoop config' s2"
  by (subst loadLoop.simps) simp

lemma read_option_launchType: "launchType (fst (read_option line config s)) = launchType config"
  by (simp add: read_option_def store_def client_upd_def server_upd_def split: option.splits)

lemma loadLoop_launchType: "launchType (loadLoop config s) = launchType config"
proof (induction config s rule: loadLoop.induct)
  case (1 config inFile)
  show ?case
  proof (cases "extract_string inFile")
    case (Pair x s1)
    show ?thesis
    proof (cases x)
      case None
      with Pair show ?thesis by (simp add: loadLoop_stop)
    next
      case (Some line)
      obtain config' s2 where r: "read_option line config s1 = (config', s2)"
        by (cases "read_option line config s1")
      have "launchType (loadLoop config' s2) = launchType config'"
        using "1.IH" [of x s1 line config' s2] Pair Some r by simp
      moreover have "launchType config' = launchType config"
        using read_option_launchType [of line config s1] r by simp
      moreover have "loadLoop config inFile = loadLoop config' s2"
        using Pair Some r by (simp add: loadLoop_step)
      ultimately show ?thesis by simp
    qed
  qed
qed

lemma loadFromConfigFile_launchType:
  "launchType (loadFromConfigFile config file) = launchType config"
  by (simp add: loadFromConfigFile_def loadLoop_launchType)

lemma loadLoop_not_good: "eofbit s \<or> failbit s \<or> buffer s = [] \<Longrightarrow> loadLoop config s = config"
  by (rule loadLoop_stop) (auto simp: extract_string_def sentry_def)

lemma loadFromConfigFile_None: "loadFromConfigFile config None = config"
  by (simp add: loadFromConfigFile_def open_file_def loadLoop_not_good)

subsection \<open>The server option\<close>

text \<open>
  C1, as stated, fails. With the sample defaults (four connections), \<^verbatim>\<open>-server 8\<close> selects
  the server but leaves \<open>maxConnections\<close> at 4: the count is converted and compared, never
  stored. And a \<^verbatim>\<open>-client\<close> option after \<^verbatim>\<open>-server 8\<close> makes the launch type
  \<open>Client\<close>: each launch option overwrites the launch type, so the last one decides.
\<close>

theorem server_count_counterexample:
  "parsed_config (example_Environment [''-server'', ''8''] None)
     = Inr (\<lparr>launchType = Server,
              serverOptions = \<lparr>maxConnections = 4, worldHeight = 32, worldSize = 16\<rparr>,
              clientOptions = example_ClientConfig\<rparr>, [])
   \<and> parsed_config (example_Environment [''-server'', ''8'', ''-client'', ''x''] None)
     = Inr (\<lparr>launchType = Client,
              serverOptions = \<lparr>maxConnections = 4, worldHeight = 32, worldSize = 16\<rparr>,
              clientOptions = example_ClientConfig\<rparr>, [])"
  by (simp add: eval_defs)

text \<open>
  C1, amended. If the paired arguments hold \<^verbatim>\<open>-server N\<close> with \<open>N\<close> numeric and between 2
  and 16, no \<^verbatim>\<open>-client\<close> option follows it, and no other \<^verbatim>\<open>-server\<close> count lies outside
  the range of \<^verbatim>\<open>int\<close>, then \<^verbatim>\<open>parseArgs\<close> returns and the launch type is \<open>Server\<close>.
  Nothing is said about \<open>maxConnections\<close>.
\<close>

theorem server_flag_launch_type:
  assumes "args = pre @ (''-server'', v) # post"
    and "stoi v = Converted n" and "2 \<le> n" and "n \<le> 16"
    and "''-client'' \<notin> fst ` set post"
    and "\<forall>opt \<in> set (pre @ post). fst opt = ''-server'' \<longrightarrow> stoi (snd opt) \<noteq> out_of_range"
  shows "\<exists>config' out. parseArgs config args = Inr (config', out) \<and> launchType config' = Server"
proof -
  from assms(6) obtain st1 where st1: "parseArgs_loop (config, []) pre = Inr st1"
    using parseArgs_loop_completes [of pre "(config, [])"] by auto
  obtain c1 o1 where c1: "st1 = (c1, o1)" by (cases st1)
  have step: "parseOption (c1, o1) (''-server'', v) = Inr (c1\<lparr>launchType := Server\<rparr>, o1)"
    using assms(2-4) by (rule parseOption_server_in_range)
  from assms(6) obtain st3 where st3: "parseArgs_loop (c1\<lparr>launchType := Server\<rparr>, o1) post = Inr st3"
    using parseArgs_loop_completes [of post "(c1\<lparr>launchType := Server\<rparr>, o1)"] by auto
  obtain c3 o3 where c3: "st3 = (c3, o3)" by (cases st3)
  have "launchType c3 = Server"
    using parseArgs_loop_keeps_Server [OF assms(5) _ st3 [unfolded c3]] by simp
  moreover have "parseArgs config args = Inr (c3, o3)"
    using st1 c1 step st3 c3 by (simp add: parseArgs_def assms(1) parseArgs_loop_append)
  ultimately show ?thesis by blast
qed

theorem server_flag_launch_type_witness:
  "\<exists>config' out.
     parseArgs (default_Config example_ServerConfig example_ClientConfig)
       [(''-skin'', ''red''), (''-client'', ''x''), (''-server'', ''8''), (''-skin'', ''blue'')]
       = Inr (config', out)
     \<and> launchType config' = Server"
proof -
  have "stoi ''8'' = Converted 8" by (simp add: stoi_def char_defs)
  from server_flag_launch_type [OF _ this, of
      "[(''-skin'', ''red''), (''-client'', ''x''), (''-server'', ''8''), (''-skin'', ''blue'')]"
      "[(''-skin'', ''red''), (''-client'', ''x'')]" "[(''-skin'', ''blue'')]"
      "default_Config example_ServerConfig example_ClientConfig"]
  show ?thesis by simp
qed

text \<open>
  C2. A count that \<^verbatim>\<open>std::stoi\<close> cannot fit into an \<^verbatim>\<open>int\<close> makes it throw
  \<^verbatim>\<open>std::out_of_range\<close>, which the handler for \<^verbatim>\<open>std::invalid_argument\<close> does not catch:
  \<^verbatim>\<open>-server 99999999999\<close> ends the program in \<^verbatim>\<open>std::terminate\<close> instead of falling back
  to four connections. A count such as 30, which fits, does fall back and is reported.
\<close>

theorem server_count_beyond_int_terminates:
  "parsed_config (example_Environment [''-server'', ''99999999999''] None) = Inl std_out_of_range
   \<and> main (example_Environment [''-server'', ''99999999999''] None)
       = (Terminated std_out_of_range, [EnetInitialize])
   \<and> parsed_config (example_Environment [''-server'', ''30''] None)
       = Inr (\<lparr>launchType = Server,
                serverOptions = \<lparr>maxConnections = 4, worldHeight = 32, worldSize = 16\<rparr>,
                clientOptions = example_ClientConfig\<rparr>,
              [UnableToSetMaxConnections MaximumOrBelow])"
  by (simp add: eval_defs)

subsection \<open>The client option\<close>

text \<open>
  C5, as stated, fails. \<^verbatim>\<open>main\<close> pairs an argument with the one after it, so \<^verbatim>\<open>-client\<close>
  as the last argument is dropped and the launch type stays \<open>TwoPlayer\<close>; and a
  \<^verbatim>\<open>-server\<close> option after \<^verbatim>\<open>-client\<close> makes the launch type \<open>Server\<close>.
\<close>

theorem client_flag_counterexample:
  "parsed_config (example_Environment [''-client''] None)
     = Inr (\<lparr>launchType = TwoPlayer, serverOptions = example_ServerConfig,
              clientOptions = example_ClientConfig\<rparr>, [])
   \<and> parsed_config (example_Environment [''-client'', ''-server'', ''8''] None)
     = Inr (\<lparr>launchType = Server, serverOptions = example_ServerConfig,
              clientOptions = example_ClientConfig\<rparr>, [])"
  by (simp add: eval_defs)

text \<open>
  C5, amended. If \<^verbatim>\<open>-client\<close> is among the paired arguments (it is followed by another
  argument), no \<^verbatim>\<open>-server\<close> option is paired after it, and no \<^verbatim>\<open>-server\<close> count before
  it lies outside the range of \<^verbatim>\<open>int\<close>, then the parsed launch type is \<open>Client\<close>, and once
  \<^verbatim>\<open>enet_initialize\<close> has succeeded \<^verbatim>\<open>main\<close> runs the client launcher alone and
  returns its exit code.
\<close>

theorem client_flag_launch_type:
  assumes "collect_args (argv env) = pre @ (''-client'', v) # post"
    and "''-server'' \<notin> fst ` set post"
    and "\<forall>opt \<in> set pre. fst opt = ''-server'' \<longrightarrow> stoi (snd opt) \<noteq> out_of_range"
  shows "\<exists>config out. parsed_config env = Inr (config, out) \<and> launchType config = Client
     \<and> (enet_initialize_result env = 0 \<longrightarrow>
          main env = (Returned (fst (launchClient (clientOptions config) (clientStatus env))),
                      [EnetInitialize] @ out
                      @ snd (launchClient (clientOptions config) (clientStatus env))))"
proof -
  let ?c0 = "loadFromConfigFile (default_Config (serverDefaults env) (clientDefaults env))
               (config_txt env)"
  from assms(3) obtain st1 where st1: "parseArgs_loop (?c0, []) pre = Inr st1"
    using parseArgs_loop_completes [of pre "(?c0, [])"] by auto
  obtain c1 o1 where c1: "st1 = (c1, o1)" by (cases st1)
  have step: "parseOption (c1, o1) (''-client'', v) = Inr (c1\<lparr>launchType := Client\<rparr>, o1)"
    by (rule parseOption_client)
  obtain c3 where c3: "parseArgs_loop (c1\<lparr>launchType := Client\<rparr>, o1) post = Inr (c3, o1)"
    and lt: "launchType c3 = Client"
    using parseArgs_loop_keeps_Client [OF assms(2), of "c1\<lparr>launchType := Client\<rparr>" o1] by auto
  have p: "parsed_config env = Inr (c3, o1)"
    using st1 c1 step c3 by (simp add: parsed_config_def parseArgs_def assms(1) parseArgs_loop_append)
  have sw: "launch_switch c3 env = Some (launchClient (clientOptions c3) (clientStatus env))"
    using lt by (simp add: launch_switch_def)
  have "enet_initialize_result env = 0 \<longrightarrow>
          main env = (Returned (fst (launchClient (clientOptions c3) (clientStatus env))),
                      [EnetInitialize] @ o1
                      @ snd (launchClient (clientOptions c3) (clientStatus env)))"
    using main_launch [OF _ p sw] by simp
  with p lt show ?thesis by blast
qed

theorem client_flag_launch_type_witness:
  "\<exists>config out.
     parsed_config (example_Environment [''-server'', ''8'', ''-client'', ''x'', ''-skin'', ''red''] None)
       = Inr (config, out)
     \<and> launchType config = Client
     \<and> main (example_Environment [''-server'', ''8'', ''-client'', ''x'', ''-skin'', ''red''] None)
         = (Returned (fst (launchClient (clientOptions config) Exit)),
            [EnetInitialize] @ out @ snd (launchClient (clientOptions config) Exit))"
proof -
  let ?env = "example_Environment [''-server'', ''8'', ''-client'', ''x'', ''-skin'', ''red''] None"
  have a: "collect_args (argv ?env)
      = [(''-server'', ''8'')] @ (''-client'', ''x'') # [(''-skin'', ''red'')]"
    by (simp add: example_defs collect_args_def starts_with_dash_def)
  have b: "''-server'' \<notin> fst ` set [(''-skin'', ''red'')]" by simp
  have c: "\<forall>opt \<in> set [(''-server'', ''8'')]. fst opt = ''-server'' \<longrightarrow> stoi (snd opt) \<noteq> out_of_range"
    by (simp add: stoi_def char_defs)
  have d: "enet_initialize_result ?env = 0" "clientStatus ?env = Exit"
    by (simp_all add: example_defs)
  from client_flag_launch_type [OF a b c] d show ?thesis by simp
qed

subsection \<open>The local test mode\<close>

text \<open>
  C6. When no argument after the program name is \<^verbatim>\<open>-server\<close> or \<^verbatim>\<open>-client\<close>, whatever
  \<^verbatim>\<open>config.txt\<close> holds and whether it exists, and \<^verbatim>\<open>enet_initialize\<close> has succeeded:
  parsing returns with the launch type \<open>TwoPlayer\<close> and prints nothing, and \<^verbatim>\<open>main\<close>
  starts one server thread with a time-out of 20000 milliseconds, sleeps one second,
  starts a thread for the second client, runs the first client on the launching thread, joins
  both threads and returns. The server thread passes the 20000 milliseconds on to the
  server engine.
\<close>

theorem local_test_mode:
  assumes "enet_initialize_result env = 0"
    and "''-server'' \<notin> set (tl (argv env))" and "''-client'' \<notin> set (tl (argv env))"
  shows "\<exists>config. parsed_config env = Inr (config, []) \<and> launchType config = TwoPlayer
     \<and> main env =
         (Returned (fst (launchClient (clientOptions config) (clientStatus env))),
          [EnetInitialize,
           ThreadStart (ServerThread (serverOptions config) 20000),
           SleepFor 1000,
           ThreadStart (ClientThread (clientOptions config))]
          @ snd (launchClient (clientOptions config) (clientStatus env))
          @ [ThreadJoin (ClientThread (clientOptions config)),
             ThreadJoin (ServerThread (serverOptions config) 20000)])
     \<and> snd (thread_run (ServerThread (serverOptions config) 20000) (serverStatus env))
         = [Log ''Launcher'' ''Launching server'',
            RunServerEngine (serverOptions config) 20000,
            Log ''Launcher'' ''Server has exited.'']"
proof -
  let ?c0 = "loadFromConfigFile (default_Config (serverDefaults env) (clientDefaults env))
               (config_txt env)"
  have c0: "launchType ?c0 = TwoPlayer"
    by (simp add: loadFromConfigFile_launchType default_Config_def)
  have "''-server'' \<notin> fst ` set (collect_args (argv env))"
    and "''-client'' \<notin> fst ` set (collect_args (argv env))"
    using assms(2,3) fst_collect_args [of "argv env"] by blast+
  from parseArgs_loop_other [OF this, of ?c0 "[]"] c0
  obtain config where p: "parsed_config env = Inr (config, [])"
    and lt: "launchType config = TwoPlayer"
    by (auto simp: parsed_config_def parseArgs_def)
  have sw: "launch_switch config env
      = Some (launchServerAnd2Players config (serverStatus env) (clientStatus env)
                (client2Status env))"
    using lt by (simp add: launch_switch_def)
  have "main env =
         (Returned (fst (launchClient (clientOptions config) (clientStatus env))),
          [EnetInitialize,
           ThreadStart (ServerThread (serverOptions config) 20000),
           SleepFor 1000,
           ThreadStart (ClientThread (clientOptions config))]
          @ snd (launchClient (clientOptions config) (clientStatus env))
          @ [ThreadJoin (ClientThread (clientOptions config)),
             ThreadJoin (ServerThread (serverOptions config) 20000)])"
    using main_launch [OF assms(1) p sw]
    by (simp add: launchServerAnd2Players_def Let_def split: prod.splits)
  moreover have "snd (thread_run (ServerThread (serverOptions config) 20000) (serverStatus env))
         = [Log ''Launcher'' ''Launching server'',
            RunServerEngine (serverOptions config) 20000,
            Log ''Launcher'' ''Server has exited.'']"
    by (simp add: thread_run_def launchServer_def)
  ultimately show ?thesis using p lt by blast
qed

theorem local_test_mode_witness:
  "\<exists>config.
     parsed_config (example_Environment [''-skin'', ''red''] (Some ''FPS 30'')) = Inr (config, [])
     \<and> launchType config = TwoPlayer
     \<and> main (example_Environment [''-skin'', ''red''] (Some ''FPS 30'')) =
         (Returned (fst (launchClient (clientOptions config) Exit)),
          [EnetInitialize,
           ThreadStart (ServerThread (serverOptions config) 20000),
           SleepFor 1000,
           ThreadStart (ClientThread (clientOptions config))]
          @ snd (launchClient (clientOptions config) Exit)
          @ [ThreadJoin (ClientThread (clientOptions config)),
             ThreadJoin (ServerThread (serverOptions config) 20000)])"
proof -
  let ?env = "example_Environment [''-skin'', ''red''] (Some ''FPS 30'')"
  have a: "enet_initialize_result ?env = 0" by (simp add: example_defs)
  have b: "''-server'' \<notin> set (tl (argv ?env))" by (simp add: example_defs)
  have c: "''-client'' \<notin> set (tl (argv ?env))" by (simp add: example_defs)
  have d: "clientStatus ?env = Exit" by (simp add: example_defs)
  from local_test_mode [OF a b c] d show ?thesis by auto
qed

subsection \<open>What the loader reads and what it leaves alone\<close>

lemma sentry_suffix: "suffix (buffer (snd (sentry s))) (buffer s)"
  by (simp add: sentry_def Let_def suffix_dropWhile)

lemma extract_string_suffix: "suffix (buffer (snd (extract_string s))) (buffer s)"
proof -
  obtain ok s1 where s1: "sentry s = (ok, s1)" by (cases "sentry s")
  have a: "suffix (buffer s1) (buffer s)" using sentry_suffix [of s] s1 by simp
  have "suffix (dropWhile (\<lambda>c. \<not> isspace c) (buffer s1)) (buffer s1)" by (rule suffix_dropWhile)
  with a have "suffix (dropWhile (\<lambda>c. \<not> isspace c) (buffer s1)) (buffer s)"
    by (rule suffix_order.trans[rotated])
  with a show ?thesis by (simp add: extract_string_def s1 Let_def)
qed

lemma extract_string_sublist:
  assumes "extract_string s = (Some line, s1)"
  shows "sublist line (buffer s)"
proof -
  obtain ok s0 where s0: "sentry s = (ok, s0)" by (cases "sentry s")
  have a: "suffix (buffer s0) (buffer s)" using sentry_suffix [of s] s0 by simp
  from assms s0 have "line = takeWhile (\<lambda>c. \<not> isspace c) (buffer s0)"
    by (auto simp: extract_string_def Let_def split: if_splits)
  then have "sublist line (buffer s0)" by simp
  moreover have "sublist (buffer s0) (buffer s)" using a by (rule suffix_imp_sublist)
  ultimately show ?thesis by (rule sublist_order.order.trans)
qed

lemma read_sign_suffix: "suffix (snd (read_sign b)) b"
  by (cases b) (simp_all add: read_sign_def suffix_ConsI)

lemma extract_number_suffix: "suffix (buffer (snd (snd (extract_number s)))) (buffer s)"
proof -
  obtain neg b where b: "read_sign (buffer s) = (neg, b)" by (cases "read_sign (buffer s)")
  have "suffix b (buffer s)" using read_sign_suffix [of "buffer s"] b by simp
  moreover have "suffix (dropWhile isdigit b) b" by (rule suffix_dropWhile)
  ultimately have "suffix (dropWhile isdigit b) (buffer s)" by (rule suffix_order.trans[rotated])
  then show ?thesis by (simp add: extract_number_def b Let_def)
qed

lemma extract_int_suffix: "suffix (buffer (snd (extract_int s))) (buffer s)"
proof -
  obtain ok s1 where s1: "sentry s = (ok, s1)" by (cases "sentry s")
  obtain v found s2 where s2: "extract_number s1 = (v, found, s2)" by (cases "extract_number s1")
  have a: "suffix (buffer s1) (buffer s)" using sentry_suffix [of s] s1 by simp
  have "suffix (buffer s2) (buffer s1)" using extract_number_suffix [of s1] s2 by simp
  then have "suffix (buffer s2) (buffer s)" using a by (rule suffix_order.trans)
  with a show ?thesis by (simp add: extract_int_def s1 s2 Let_def)
qed

lemma extract_bool_suffix: "suffix (buffer (snd (extract_bool s))) (buffer s)"
proof -
  obtain ok s1 where s1: "sentry s = (ok, s1)" by (cases "sentry s")
  obtain v found s2 where s2: "extract_number s1 = (v, found, s2)" by (cases "extract_number s1")
  have a: "suffix (buffer s1) (buffer s)" using sentry_suffix [of s] s1 by simp
  have "suffix (buffer s2) (buffer s1)" using extract_number_suffix [of s1] s2 by simp
  then have "suffix (buffer s2) (buffer s)" using a by (rule suffix_order.trans)
  with a show ?thesis by (simp add: extract_bool_def s1 s2 Let_def)
qed

lemma read_option_suffix: "suffix (buffer (snd (read_option line config s))) (buffer s)"
  by (simp add: read_option_def extract_int_suffix extract_bool_suffix extract_string_suffix)

lemma option_value_store:
  "(\<And>v. option_value key (upd v config) = option_value key config) \<Longrightarrow>
   option_value key (fst (store upd r config)) = option_value key config"
  by (simp add: store_def split: option.splits)

lemma option_value_client_upd:
  "key \<noteq> ''FULLSCREEN'' \<Longrightarrow>
     option_value key (client_upd (\<lambda>c. c\<lparr>fullScreen := b\<rparr>) config) = option_value key config"
  "key \<noteq> ''WIN_WIDTH'' \<Longrightarrow>
     option_value key (client_upd (\<lambda>c. c\<lparr>windowWidth := n\<rparr>) config) = option_value key config"
  "key \<noteq> ''WIN_HEIGHT'' \<Longrightarrow>
     option_value key (client_upd (\<lambda>c. c\<lparr>windowHeight := n\<rparr>) config) = option_value key config"
  "key \<noteq> ''FPS_CAPPED'' \<Longrightarrow>
     option_value key (client_upd (\<lambda>c. c\<lparr>isFpsCapped := b\<rparr>) config) = option_value key config"
  "key \<noteq> ''FPS'' \<Longrightarrow>
     option_value key (client_upd (\<lambda>c. c\<lparr>fpsLimit := n\<rparr>) config) = option_value key config"
  "key \<noteq> ''FOV'' \<Longrightarrow>
     option_value key (client_upd (\<lambda>c. c\<lparr>fov := n\<rparr>) config) = option_value key config"
  "key \<noteq> ''SKIN'' \<Longrightarrow>
     option_value key (client_upd (\<lambda>c. c\<lparr>skinName := t\<rparr>) config) = option_value key config"
  by (simp_all add: option_value_def client_upd_def)

lemma option_value_server_upd:
  "key \<noteq> ''WORLD_HEIGHT'' \<Longrightarrow>
     option_value key (server_upd (\<lambda>c. c\<lparr>worldHeight := n\<rparr>) config) = option_value key config"
  "key \<noteq> ''WORLD_SIZE'' \<Longrightarrow>
     option_value key (server_upd (\<lambda>c. c\<lparr>worldSize := n\<rparr>) config) = option_value key config"
  by (simp_all add: option_value_def server_upd_def)

lemma read_option_other_key:
  assumes "line \<noteq> key"
  shows "option_value key (fst (read_option line config s)) = option_value key config"
proof -
  from assms have "key \<noteq> line" by simp
  then show ?thesis
    by (simp add: read_option_def option_value_store option_value_client_upd
        option_value_server_upd)
qed

lemma not_sublist_suffix: "\<not> sublist key b \<Longrightarrow> suffix b' b \<Longrightarrow> \<not> sublist key b'"
  using sublist_order.order.trans suffix_imp_sublist by blast

lemma loadLoop_absent_key:
  "\<not> sublist key (buffer s) \<Longrightarrow> option_value key (loadLoop config s) = option_value key config"
proof (induction config s rule: loadLoop.induct)
  case (1 config inFile)
  show ?case
  proof (cases "extract_string inFile")
    case (Pair x s1)
    show ?thesis
    proof (cases x)
      case None
      with Pair show ?thesis by (simp add: loadLoop_stop)
    next
      case (Some line)
      obtain config' s2 where r: "read_option line config s1 = (config', s2)"
        by (cases "read_option line config s1")
      have "sublist line (buffer inFile)" using Pair Some extract_string_sublist by blast
      with "1.prems" have ne: "line \<noteq> key" by auto
      have "suffix (buffer s1) (buffer inFile)"
        using extract_string_suffix [of inFile] Pair by simp
      moreover have "suffix (buffer s2) (buffer s1)"
        using read_option_suffix [of line config s1] r by simp
      ultimately have "suffix (buffer s2) (buffer inFile)" by (rule suffix_order.trans[rotated])
      with "1.prems" have "\<not> sublist key (buffer s2)" by (rule not_sublist_suffix)
      then have "option_value key (loadLoop config' s2) = option_value key config'"
        using "1.IH" [of x s1 line config' s2] Pair Some r by simp
      moreover have "option_value key config' = option_value key config"
        using read_option_other_key [OF ne, of config s1] r by simp
      moreover have "loadLoop config inFile = loadLoop config' s2"
        using Pair Some r by (simp add: loadLoop_step)
      ultimately show ?thesis by simp
    qed
  qed
qed

lemma loadFromConfigFile_absent_key:
  "\<not> sublist key content \<Longrightarrow>
   option_value key (loadFromConfigFile config (Some content)) = option_value key config"
  by (simp add: loadFromConfigFile_def open_file_def loadLoop_absent_key)

lemma read_option_unrecognised:
  "line \<notin> set config_keys \<Longrightarrow> read_option line config s = (config, s)"
  by (simp add: config_keys_def read_option_def)

lemma isspace_not_digit: "isspace c \<Longrightarrow> \<not> isdigit c"
  by (auto simp: isspace_def isdigit_def)

lemma sentry_skips:
  assumes "\<forall>c \<in> set ws. isspace c" and "b \<noteq> []" and "\<not> isspace (hd b)"
    and "\<not> eofbit s" and "\<not> failbit s" and "buffer s = ws @ b"
  shows "sentry s = (True, s\<lparr>buffer := b\<rparr>)"
proof -
  obtain x xs where b: "b = x # xs" using assms(2) by (cases b) auto
  have "dropWhile isspace (ws @ x # xs) = x # xs"
    using assms(1,3) b by (simp add: dropWhile_append3)
  then show ?thesis using assms(2,4-6) b by (simp add: sentry_def)
qed

lemma span_token:
  assumes "\<forall>c \<in> set tok. P c" and "rest = [] \<or> \<not> P (hd rest)"
  shows "takeWhile P (tok @ rest) = tok" and "dropWhile P (tok @ rest) = rest"
proof -
  have "takeWhile P rest = []" and "dropWhile P rest = rest"
    using assms(2) by (cases rest, simp, simp)+
  then show "takeWhile P (tok @ rest) = tok" and "dropWhile P (tok @ rest) = rest"
    using assms(1) by (simp_all add: takeWhile_append2 dropWhile_append2)
qed

lemma extract_string_token:
  assumes "\<forall>c \<in> set ws. isspace c" and "tok \<noteq> []" and "\<forall>c \<in> set tok. \<not> isspace c"
    and "rest = [] \<or> isspace (hd rest)"
    and "\<not> eofbit s" and "\<not> failbit s" and "buffer s = ws @ tok @ rest"
  shows "extract_string s = (Some tok, s\<lparr>buffer := rest, eofbit := (rest = [])\<rparr>)"
proof -
  have "\<not> isspace (hd (tok @ rest))" using assms(2,3) by (cases tok) auto
  then have "sentry s = (True, s\<lparr>buffer := tok @ rest\<rparr>)"
    using assms by (intro sentry_skips [where ws = ws]) simp_all
  moreover have "takeWhile (\<lambda>c. \<not> isspace c) (tok @ rest) = tok"
    and "dropWhile (\<lambda>c. \<not> isspace c) (tok @ rest) = rest"
    using span_token [of tok "\<lambda>c. \<not> isspace c" rest] assms(3,4) by simp_all
  ultimately show ?thesis by (simp add: extract_string_def del: dropWhile_eq_Nil_conv)
qed

lemma read_sign_digit: "ds \<noteq> [] \<Longrightarrow> isdigit (hd ds) \<Longrightarrow> read_sign (ds @ rest) = (False, ds @ rest)"
  by (cases ds) (auto simp: read_sign_def isdigit_def)

lemma digit_value_nonneg: "isdigit c \<Longrightarrow> 0 \<le> digit_value c"
  by (auto simp: isdigit_def digit_value_def)

lemma foldl_decimal_nonneg:
  "0 \<le> a \<Longrightarrow> \<forall>c \<in> set xs. isdigit c \<Longrightarrow> 0 \<le> foldl (\<lambda>acc c. 10 * acc + digit_value c) a xs"
proof (induction xs arbitrary: a)
  case Nil
  then show ?case by simp
next
  case (Cons x xs)
  then have "0 \<le> 10 * a + digit_value x" using digit_value_nonneg [of x] by simp
  with Cons show ?case by simp
qed

lemma decimal_nonneg: "\<forall>c \<in> set ds. isdigit c \<Longrightarrow> 0 \<le> decimal ds"
  by (simp add: decimal_def foldl_decimal_nonneg)

lemma extract_number_token:
  assumes "ds \<noteq> []" and "\<forall>c \<in> set ds. isdigit c" and "rest = [] \<or> \<not> isdigit (hd rest)"
    and "buffer s = ds @ rest"
  shows "extract_number s = (decimal ds, True, s\<lparr>buffer := rest, eofbit := (rest = [])\<rparr>)"
proof -
  have "isdigit (hd ds)" using assms(1,2) by (cases ds) simp_all
  with assms(1) have "read_sign (ds @ rest) = (False, ds @ rest)" by (rule read_sign_digit)
  moreover have "takeWhile isdigit (ds @ rest) = ds" and "dropWhile isdigit (ds @ rest) = rest"
    using span_token [of ds isdigit rest] assms(2,3) by simp_all
  ultimately show ?thesis
    using assms(1,4) by (simp add: extract_number_def del: dropWhile_eq_Nil_conv)
qed

lemma extract_int_token:
  assumes "\<forall>c \<in> set ws. isspace c" and "ds \<noteq> []" and "\<forall>c \<in> set ds. isdigit c"
    and "rest = [] \<or> \<not> isdigit (hd rest)"
    and "\<not> eofbit s" and "\<not> failbit s" and "buffer s = ws @ ds @ rest"
    and "decimal ds \<le> INT_MAX"
  shows "extract_int s = (Some (decimal ds), s\<lparr>buffer := rest, eofbit := (rest = [])\<rparr>)"
proof -
  have "isdigit (hd ds)" using assms(2,3) by (cases ds) simp_all
  then have "\<not> isspace (hd ds)" using isspace_not_digit by blast
  then have "\<not> isspace (hd (ds @ rest))" using assms(2) by simp
  then have a: "sentry s = (True, s\<lparr>buffer := ds @ rest\<rparr>)"
    using assms(1,2,5,6,7) by (intro sentry_skips [where ws = ws]) simp_all
  have b: "extract_number (s\<lparr>buffer := ds @ rest\<rparr>)
      = (decimal ds, True, s\<lparr>buffer := rest, eofbit := (rest = [])\<rparr>)"
    using extract_number_token [OF assms(2,3,4), of "s\<lparr>buffer := ds @ rest\<rparr>"] by simp
  have "0 \<le> decimal ds" using assms(3) by (rule decimal_nonneg)
  then have c: "\<not> decimal ds < INT_MIN" by (simp add: INT_MIN_def)
  have d: "\<not> INT_MAX < decimal ds" using assms(8) by simp
  show ?thesis using c d by (simp add: extract_int_def a b)
qed

lemma loadLoop_WORLD_SIZE_256:
  assumes "\<forall>c \<in> set ws. isspace c" and "\<not> eofbit s" and "\<not> failbit s"
    and "buffer s = ws @ ''WORLD_SIZE 256'' @ rest" and "rest = [] \<or> isspace (hd rest)"
  shows "loadLoop config s
         = loadLoop (server_upd (\<lambda>c. c\<lparr>worldSize := 256\<rparr>) config)
             (s\<lparr>buffer := rest, eofbit := (rest = [])\<rparr>)"
proof -
  let ?s1 = "s\<lparr>buffer := '' 256'' @ rest, eofbit := False\<rparr>"
  have a: "extract_string s = (Some ''WORLD_SIZE'', ?s1)"
    using extract_string_token [of ws "''WORLD_SIZE''" "'' 256'' @ rest" s] assms(1-4)
    by (simp add: isspace_def)
  have r: "rest = [] \<or> \<not> isdigit (hd rest)" using assms(5) isspace_not_digit by blast
  have "decimal ''256'' = 256" by (simp add: decimal_def digit_value_def)
  then have "extract_int ?s1 = (Some 256, s\<lparr>buffer := rest, eofbit := (rest = [])\<rparr>)"
    using extract_int_token [of "'' ''" "''256''" rest ?s1] assms(3) r
    by (simp add: isspace_def isdigit_def INT_MAX_def)
  then have b: "read_option ''WORLD_SIZE'' config ?s1
      = (server_upd (\<lambda>c. c\<lparr>worldSize := 256\<rparr>) config,
         s\<lparr>buffer := rest, eofbit := (rest = [])\<rparr>)"
    by (simp add: read_option_def store_def)
  from loadLoop_step [OF a b] show ?thesis .
qed

lemma loadLoop_FOO_bar:
  assumes "\<forall>c \<in> set ws. isspace c" and "\<not> eofbit s" and "\<not> failbit s"
    and "buffer s = ws @ ''FOO bar'' @ rest" and "rest = [] \<or> isspace (hd rest)"
  shows "loadLoop config s = loadLoop config (s\<lparr>buffer := rest, eofbit := (rest = [])\<rparr>)"
proof -
  let ?s1 = "s\<lparr>buffer := '' bar'' @ rest, eofbit := False\<rparr>"
  let ?s2 = "s\<lparr>buffer := rest, eofbit := (rest = [])\<rparr>"
  have a: "extract_string s = (Some ''FOO'', ?s1)"
    using extract_string_token [of ws "''FOO''" "'' bar'' @ rest" s] assms(1-4)
    by (simp add: isspace_def)
  have b: "read_option ''FOO'' config ?s1 = (config, ?s1)"
    by (rule read_option_unrecognised) (simp add: config_keys_def)
  have c: "extract_string ?s1 = (Some ''bar'', ?s2)"
    using extract_string_token [of "'' ''" "''bar''" rest ?s1] assms(3,5)
    by (simp add: isspace_def)
  have d: "read_option ''bar'' config ?s2 = (config, ?s2)"
    by (rule read_option_unrecognised) (simp add: config_keys_def)
  from loadLoop_step [OF a b] loadLoop_step [OF c d] show ?thesis by simp
qed

lemma extract_string_failed: "failbit s \<Longrightarrow> fst (extract_string s) = None"
  by (simp add: extract_string_def sentry_def)

lemma resume_at: "loadLoop config (s\<lparr>buffer := rest, eofbit := (rest = [])\<rparr>)
    = loadLoop config (s\<lparr>buffer := rest\<rparr>)" if "\<not> eofbit s" 
proof (cases "rest = []")
  case True
  then show ?thesis by (simp add: loadLoop_not_good)
next
  case False
  then have "s\<lparr>buffer := rest, eofbit := (rest = [])\<rparr> = s\<lparr>buffer := rest\<rparr>"
    using that by simp
  then show ?thesis by simp
qed

text \<open>
  C8. On a stream in a good state, after any white space \<open>ws\<close> and before a \<open>rest\<close>
  that is empty or starts with white space:
  the line \<^verbatim>\<open>WORLD_SIZE 256\<close> stores 256 as the world size and the loop goes on with
  \<open>rest\<close>, so a file that starts with this line and does not name the key again ends
  with a world size of 256; the line \<^verbatim>\<open>FOO bar\<close> changes nothing and raises no error,
  the file loads as it does without the line, and any key outside the nine recognised
  ones is passed over; an option whose key occurs nowhere in the file keeps the value it
  had, and so does every option when the file is missing.
\<close>

theorem config_file_loading:
  assumes "\<forall>c \<in> set ws. isspace c" and "rest = [] \<or> isspace (hd rest)"
    and "\<not> eofbit s" and "\<not> failbit s"
  shows "(buffer s = ws @ ''WORLD_SIZE 256'' @ rest \<longrightarrow>
            loadLoop config s
            = loadLoop (config\<lparr>serverOptions := (serverOptions config)\<lparr>worldSize := 256\<rparr>\<rparr>)
                (s\<lparr>buffer := rest\<rparr>))
       \<and> (\<not> sublist ''WORLD_SIZE'' rest \<longrightarrow>
            worldSize (serverOptions
              (loadFromConfigFile config (Some (ws @ ''WORLD_SIZE 256'' @ rest)))) = 256)
       \<and> (buffer s = ws @ ''FOO bar'' @ rest \<longrightarrow>
            loadLoop config s = loadLoop config (s\<lparr>buffer := rest\<rparr>))
       \<and> loadFromConfigFile config (Some (ws @ ''FOO bar'' @ rest))
           = loadFromConfigFile config (Some rest)
       \<and> (line \<notin> set config_keys \<longrightarrow> read_option line config s = (config, s))
       \<and> (\<not> sublist key content \<longrightarrow>
            option_value key (loadFromConfigFile config (Some content)) = option_value key config)
       \<and> loadFromConfigFile config None = config"
proof -
  let ?config' = "config\<lparr>serverOptions := (serverOptions config)\<lparr>worldSize := 256\<rparr>\<rparr>"
  have step: "loadLoop config t = loadLoop ?config' (t\<lparr>buffer := rest\<rparr>)"
    if "\<not> eofbit t" "\<not> failbit t" "buffer t = ws @ ''WORLD_SIZE 256'' @ rest" for t
    using loadLoop_WORLD_SIZE_256 [OF assms(1) that assms(2), of config] resume_at [OF that(1)]
    by (simp add: server_upd_def)
  have skip: "loadLoop config t = loadLoop config (t\<lparr>buffer := rest\<rparr>)"
    if "\<not> eofbit t" "\<not> failbit t" "buffer t = ws @ ''FOO bar'' @ rest" for t
    using loadLoop_FOO_bar [OF assms(1) that assms(2), of config] resume_at [OF that(1)]
    by simp
  have a: "buffer s = ws @ ''WORLD_SIZE 256'' @ rest \<longrightarrow>
            loadLoop config s = loadLoop ?config' (s\<lparr>buffer := rest\<rparr>)"
    using step [OF assms(3,4)] by blast
  have b: "\<not> sublist ''WORLD_SIZE'' rest \<longrightarrow>
            worldSize (serverOptions
              (loadFromConfigFile config (Some (ws @ ''WORLD_SIZE 256'' @ rest)))) = 256"
  proof
    assume ns: "\<not> sublist ''WORLD_SIZE'' rest"
    let ?t = "open_file (Some (ws @ ''WORLD_SIZE 256'' @ rest))"
    have "loadLoop config ?t = loadLoop ?config' (?t\<lparr>buffer := rest\<rparr>)"
      by (rule step) (simp_all add: open_file_def)
    moreover have "option_value ''WORLD_SIZE'' (loadLoop ?config' (?t\<lparr>buffer := rest\<rparr>))
        = option_value ''WORLD_SIZE'' ?config'"
      using ns by (intro loadLoop_absent_key) simp
    ultimately have "option_value ''WORLD_SIZE'' (loadLoop config ?t)
        = option_value ''WORLD_SIZE'' ?config'" by simp
    then show "worldSize (serverOptions
        (loadFromConfigFile config (Some (ws @ ''WORLD_SIZE 256'' @ rest)))) = 256"
      by (simp add: option_value_def loadFromConfigFile_def)
  qed
  have c: "buffer s = ws @ ''FOO bar'' @ rest \<longrightarrow>
            loadLoop config s = loadLoop config (s\<lparr>buffer := rest\<rparr>)"
    using skip [OF assms(3,4)] by blast
  have d: "loadFromConfigFile config (Some (ws @ ''FOO bar'' @ rest))
           = loadFromConfigFile config (Some rest)"
  proof -
    let ?t = "open_file (Some (ws @ ''FOO bar'' @ rest))"
    have "loadLoop config ?t = loadLoop config (?t\<lparr>buffer := rest\<rparr>)"
      by (rule skip) (simp_all add: open_file_def)
    moreover have "?t\<lparr>buffer := rest\<rparr> = open_file (Some rest)" by (simp add: open_file_def)
    ultimately show ?thesis by (simp add: loadFromConfigFile_def)
  qed
  have e: "line \<notin> set config_keys \<longrightarrow> read_option line config s = (config, s)"
    by (simp add: read_option_unrecognised)
  have f: "\<not> sublist key content \<longrightarrow>
            option_value key (loadFromConfigFile config (Some content)) = option_value key config"
    by (simp add: loadFromConfigFile_absent_key)
  show ?thesis using a b c d e f loadFromConfigFile_None [of config] by blast
qed

theorem config_file_loading_witness:
  "worldSize (serverOptions
     (loadFromConfigFile example_Config
        (Some (CHR 0x0A # ''WORLD_SIZE 256'' @ CHR 0x0A # ''FPS 30'')))) = 256
   \<and> loadFromConfigFile example_Config (Some (CHR 0x0A # ''FOO bar'' @ CHR 0x0A # ''FPS 30''))
       = loadFromConfigFile example_Config (Some (CHR 0x0A # ''FPS 30''))
   \<and> read_option ''FOO'' example_Config (open_file (Some '' bar'')) 
       = (example_Config, open_file (Some '' bar''))
   \<and> option_value ''WORLD_SIZE'' (loadFromConfigFile example_Config (Some ''FPS 30''))
       = option_value ''WORLD_SIZE'' example_Config"
proof -
  let ?rest = "CHR 0x0A # ''FPS 30''"
  let ?s = "open_file (Some '' bar'')"
  have ws: "\<forall>c \<in> set [CHR 0x0A]. isspace c" by (simp add: isspace_def)
  have rest: "?rest = [] \<or> isspace (hd ?rest)" by (simp add: isspace_def)
  have good: "\<not> eofbit ?s" "\<not> failbit ?s" by (simp_all add: open_file_def)
  have ns: "\<not> sublist ''WORLD_SIZE'' ?rest" by (simp add: sublist_code)
  have nk: "''FOO'' \<notin> set config_keys" by (simp add: config_keys_def)
  have ab: "\<not> sublist ''WORLD_SIZE'' ''FPS 30''" by (simp add: sublist_code)
  from config_file_loading [OF ws rest good, of example_Config "''FOO''" "''WORLD_SIZE''" "''FPS 30''"]
    ns nk ab
  show ?thesis by simp
qed

subsection \<open>A failed extraction ends the loading\<close>

lemma extract_int_no_digit:
  assumes "\<forall>x \<in> set ws. isspace x" and "\<not> isspace c" and "\<not> isdigit c"
    and "c \<noteq> CHR ''-''" and "c \<noteq> CHR ''+''"
    and "\<not> eofbit s" and "\<not> failbit s" and "buffer s = ws @ c # rest"
  shows "failbit (snd (extract_int s))"
proof -
  have a: "sentry s = (True, s\<lparr>buffer := c # rest\<rparr>)"
    using assms(1,2,6,7,8) by (intro sentry_skips [where ws = ws]) simp_all
  have b: "extract_number (s\<lparr>buffer := c # rest\<rparr>)
      = (0, False, s\<lparr>buffer := c # rest, eofbit := False, failbit := True\<rparr>)"
    using assms(3,4,5) by (simp add: extract_number_def read_sign_def)
  show ?thesis by (simp add: extract_int_def a b INT_MIN_def INT_MAX_def)
qed

lemma read_option_int_key:
  "key \<in> set int_keys \<Longrightarrow> snd (read_option key config s) = snd (extract_int s)"
  by (auto simp: int_keys_def read_option_def)

lemma int_key_token: "key \<in> set int_keys \<Longrightarrow> key \<noteq> [] \<and> (\<forall>c \<in> set key. \<not> isspace c)"
  by (auto simp: int_keys_def isspace_def)

lemma failed_extraction_stops:
  assumes "extract_string s = (Some key, s1)" and "read_option key config s1 = (config', s2)"
    and "failbit s2"
  shows "loadLoop config s = config'"
    and "\<forall>k. k \<noteq> key \<longrightarrow> option_value k (loadLoop config s) = option_value k config"
proof -
  have "loadLoop config s = loadLoop config' s2" using assms(1,2) by (rule loadLoop_step)
  also have "\<dots> = config'" using assms(3) by (simp add: loadLoop_not_good)
  finally show a: "loadLoop config s = config'" .
  show "\<forall>k. k \<noteq> key \<longrightarrow> option_value k (loadLoop config s) = option_value k config"
  proof (intro allI impI)
    fix k assume "k \<noteq> key"
    then have "key \<noteq> k" by simp
    from read_option_other_key [OF this, of config s1] assms(2) a
    show "option_value k (loadLoop config s) = option_value k config" by simp
  qed
qed

text \<open>
  C9. When the value after a key fails to be extracted (the stream comes back with
  \<^verbatim>\<open>failbit\<close> set), the loop ends there: the result is the configuration of that moment,
  and every option other than the one of that key is as it was before the line, whatever
  the rest of the file holds. In particular a file that starts with one of the six
  \<^verbatim>\<open>int\<close> keys, a space and a character that is neither white space, a digit nor a sign
  leaves every other option at the value it started with.
\<close>

theorem failed_extraction_ends_loading:
  "(extract_string s = (Some key, s1) \<and> read_option key config s1 = (config', s2) \<and> failbit s2
      \<longrightarrow> loadLoop config s = config'
          \<and> (\<forall>k. k \<noteq> key \<longrightarrow> option_value k (loadLoop config s) = option_value k config))
   \<and> (key' \<in> set int_keys \<and> \<not> isspace c \<and> \<not> isdigit c \<and> c \<noteq> CHR ''-'' \<and> c \<noteq> CHR ''+''
      \<longrightarrow> (\<forall>k. k \<noteq> key' \<longrightarrow>
             option_value k (loadFromConfigFile config (Some (key' @ '' '' @ c # rest)))
             = option_value k config))"
proof -
  have a: "extract_string s = (Some key, s1) \<and> read_option key config s1 = (config', s2)
      \<and> failbit s2
      \<longrightarrow> loadLoop config s = config'
          \<and> (\<forall>k. k \<noteq> key \<longrightarrow> option_value k (loadLoop config s) = option_value k config)"
    using failed_extraction_stops [of s key s1 config config' s2] by blast
  have b: "key' \<in> set int_keys \<and> \<not> isspace c \<and> \<not> isdigit c \<and> c \<noteq> CHR ''-'' \<and> c \<noteq> CHR ''+''
      \<longrightarrow> (\<forall>k. k \<noteq> key' \<longrightarrow>
             option_value k (loadFromConfigFile config (Some (key' @ '' '' @ c # rest)))
             = option_value k config)"
  proof (intro impI, elim conjE)
    assume h: "key' \<in> set int_keys" "\<not> isspace c" "\<not> isdigit c" "c \<noteq> CHR ''-''" "c \<noteq> CHR ''+''"
    let ?s = "open_file (Some (key' @ '' '' @ c # rest))"
    let ?s1 = "?s\<lparr>buffer := '' '' @ c # rest, eofbit := False\<rparr>"
    have tok: "key' \<noteq> []" "\<forall>x \<in> set key'. \<not> isspace x" using int_key_token [OF h(1)] by simp_all
    have e: "extract_string ?s = (Some key', ?s1)"
      using extract_string_token [of "[]" key' "'' '' @ c # rest" ?s] tok
      by (simp add: open_file_def isspace_def)
    obtain config2 s2' where r: "read_option key' config ?s1 = (config2, s2')"
      by (cases "read_option key' config ?s1")
    have "failbit (snd (extract_int ?s1))"
      using h(2-5) by (intro extract_int_no_digit [where ws = "'' ''" and c = c and rest = rest])
        (simp_all add: open_file_def isspace_def)
    then have "failbit s2'" using read_option_int_key [OF h(1), of config ?s1] r by simp
    from failed_extraction_stops(2) [OF e r this]
    show "\<forall>k. k \<noteq> key' \<longrightarrow>
             option_value k (loadFromConfigFile config (Some (key' @ '' '' @ c # rest)))
             = option_value k config"
      by (simp add: loadFromConfigFile_def)
  qed
  from a b show ?thesis by blast
qed

theorem failed_extraction_ends_loading_witness:
  "loadFromConfigFile example_Config (Some (''WIN_WIDTH abc'' @ CHR 0x0A # ''WORLD_SIZE 256''))
     = example_Config\<lparr>clientOptions := (clientOptions example_Config)\<lparr>windowWidth := 0\<rparr>\<rparr>
   \<and> option_value ''WORLD_SIZE''
        (loadFromConfigFile example_Config (Some (''WIN_WIDTH abc'' @ CHR 0x0A # ''WORLD_SIZE 256'')))
      = Some (Number 16)"
proof -
  let ?rest = "''bc'' @ CHR 0x0A # ''WORLD_SIZE 256''"
  let ?s = "open_file (Some (''WIN_WIDTH abc'' @ CHR 0x0A # ''WORLD_SIZE 256''))"
  let ?s1 = "?s\<lparr>buffer := '' abc'' @ CHR 0x0A # ''WORLD_SIZE 256''\<rparr>"
  let ?s2 = "?s\<lparr>buffer := ''abc'' @ CHR 0x0A # ''WORLD_SIZE 256'', failbit := True\<rparr>"
  let ?config' = "example_Config\<lparr>clientOptions := (clientOptions example_Config)\<lparr>windowWidth := 0\<rparr>\<rparr>"
  have a: "extract_string ?s = (Some ''WIN_WIDTH'', ?s1)"
    by (simp add: stream_defs char_defs)
  have b: "read_option ''WIN_WIDTH'' example_Config ?s1 = (?config', ?s2)"
    by (simp add: stream_defs char_defs)
  have c: "failbit ?s2" by simp
  have d: "''WIN_WIDTH'' \<in> set int_keys" "\<not> isspace CHR ''a''" "\<not> isdigit CHR ''a''"
    "CHR ''a'' \<noteq> CHR ''-''" "CHR ''a'' \<noteq> CHR ''+''"
    by (simp_all add: int_keys_def isspace_def isdigit_def)
  have e: "option_value ''WORLD_SIZE'' example_Config = Some (Number 16)"
    by (simp add: option_value_def example_Config_def default_Config_def example_defs)
  note inst = failed_extraction_ends_loading [of ?s "''WIN_WIDTH''" ?s1 example_Config ?config' ?s2
      "''WIN_WIDTH''" "CHR ''a''" ?rest]
  from inst have "extract_string ?s = (Some ''WIN_WIDTH'', ?s1)
      \<and> read_option ''WIN_WIDTH'' example_Config ?s1 = (?config', ?s2) \<and> failbit ?s2
      \<longrightarrow> loadLoop example_Config ?s = ?config'
          \<and> (\<forall>k. k \<noteq> ''WIN_WIDTH'' \<longrightarrow>
                option_value k (loadLoop example_Config ?s) = option_value k example_Config)"
    by (rule conjunct1)
  with a b c have f: "loadLoop example_Config ?s = ?config'"
    and g: "\<forall>k. k \<noteq> ''WIN_WIDTH'' \<longrightarrow>
                option_value k (loadLoop example_Config ?s) = option_value k example_Config"
    by (metis (no_types))+
  from g have "''WORLD_SIZE'' \<noteq> ''WIN_WIDTH'' \<longrightarrow>
        option_value ''WORLD_SIZE'' (loadLoop example_Config ?s)
        = option_value ''WORLD_SIZE'' example_Config" by (rule spec)
  then have "option_value ''WORLD_SIZE'' (loadLoop example_Config ?s)
        = option_value ''WORLD_SIZE'' example_Config" by simp
  with e f show ?thesis by (simp add: loadFromConfigFile_def)
qed

subsection \<open>Endpoint equality\<close>

text \<open>
  C7. \<^verbatim>\<open>operator==\<close> on endpoints is reflexive, symmetric and transitive; it holds
  exactly when the numeric addresses and the ports are equal; and two endpoints with the
  same port whose addresses were resolved from two texts to the same number are equal,
  for any way \<open>resolve\<close> of turning a text into an address.
\<close>

theorem Endpoint_eq_equivalence:
  "Endpoint_eq e e
   \<and> (Endpoint_eq e1 e2 \<longrightarrow> Endpoint_eq e2 e1)
   \<and> (Endpoint_eq e1 e2 \<and> Endpoint_eq e2 e3 \<longrightarrow> Endpoint_eq e1 e3)
   \<and> (Endpoint_eq e1 e2 \<longleftrightarrow>
        toInteger (address e1) = toInteger (address e2) \<and> port e1 = port e2)
   \<and> (toInteger (resolve text1) = toInteger (resolve text2) \<longrightarrow>
        Endpoint_eq \<lparr>address = resolve text1, port = p\<rparr> \<lparr>address = resolve text2, port = p\<rparr>)"
  by (auto simp: Endpoint_eq_def)

theorem Endpoint_eq_equivalence_witness:
  "Endpoint_eq \<lparr>address = \<lparr>m_address = 0x0100007F, m_valid = True\<rparr>, port = 56355\<rparr>
               \<lparr>address = \<lparr>m_address = 0x0100007F, m_valid = False\<rparr>, port = 56355\<rparr>
   \<and> Endpoint_eq \<lparr>address = \<lparr>m_address = 0x0100007F, m_valid = False\<rparr>, port = 56355\<rparr>
               \<lparr>address = \<lparr>m_address = 0x0100007F, m_valid = True\<rparr>, port = 56355\<rparr>"
proof -
  let ?resolve = "\<lambda>text. if text = ''localhost'' then \<lparr>m_address = 0x0100007F, m_valid = True\<rparr>
                         else \<lparr>m_address = 0x0100007F, m_valid = False\<rparr>"
  let ?e1 = "\<lparr>address = ?resolve ''localhost'', port = 56355\<rparr>"
  let ?e2 = "\<lparr>address = ?resolve ''127.0.0.1'', port = 56355\<rparr>"
  have "toInteger (?resolve ''localhost'') = toInteger (?resolve ''127.0.0.1'')"
    by (simp add: toInteger_def)
  with Endpoint_eq_equivalence [of ?e1 ?e1 ?e2 ?e1 ?resolve "''localhost''" "''127.0.0.1''" 56355]
  show ?thesis by simp
qed

end
